theory Spec2Isabelle
  imports Main "HOL-Library.Sublist"
begin

section \<open>The storage provisioning script \<^verbatim>\<open>src/scripts/setupStorage.ts\<close>\<close>

text \<open>
  The script is one asynchronous function, \<^verbatim>\<open>setupStorage\<close>, whose whole body sits in a
  \<^verbatim>\<open>try\<close> block. It talks to three things that are not part of the repository: the
  Supabase client (bucket listing and creation, remote procedure calls, uploads), Node's
  \<^verbatim>\<open>fs\<close> and \<^verbatim>\<open>path\<close> modules, and the console. The model makes all of them explicit:
  \<^item> the answers of the outside world are a record \<open>env\<close>, one field per call the script
    makes, giving for each request either a returned value or a thrown error;
  \<^item> what the script does is the list of \<open>event\<close>s it issues, in order (every request and
    every console line), together with the exit code of the process;
  \<^item> an exception is the left injection of a sum, so that the \<^verbatim>\<open>try\<close>/\<^verbatim>\<open>catch\<close> blocks of
    the source are branches of the model.
  A thrown value is an \<^verbatim>\<open>Error\<close> object carrying a string \<^verbatim>\<open>message\<close>, which is what the
  handler at line 99 reads. Strings are byte strings; the only case conversions the script
  needs are on ASCII letters.
\<close>

subsection \<open>Values\<close>

datatype js_error = JsError (message: string)

datatype 'a outcome = Returns 'a | Throws js_error

datatype bucket = Bucket (bucket_name: string)

record bucket_options =
  "public" :: bool
  fileSizeLimit :: nat

record upload_options =
  contentType :: string
  upsert :: bool

record policy =
  name :: string
  sql :: string

type_synonym buffer = "char list"

subsection \<open>Requests and console lines\<close>

datatype event =
    ListBuckets
  | CreateBucket string bucket_options
  | Rpc string "(string \<times> string) list"
  | ReaddirSync string
  | ReadFileSync string
  | Upload string string buffer upload_options
  | ExistsSync string
  | MkdirSync string
  | WriteFileSync string string string
  | ConsoleLog string
  | ConsoleError string js_error

text \<open>
  \<open>Upload b p body opts\<close> is \<^verbatim>\<open>storage.from(b).upload(p, body, opts)\<close>; \<open>Rpc f args\<close> is
  \<^verbatim>\<open>rpc(f, args)\<close> with the argument object as a list of key and value;
  \<open>WriteFileSync p content enc\<close> is \<^verbatim>\<open>fs.writeFileSync(p, content, enc)\<close>.
\<close>

subsection \<open>The outside world\<close>

text \<open>
  The Supabase calls resolve to an object with an \<^verbatim>\<open>error\<close> field (and, for the listing, a
  \<^verbatim>\<open>data\<close> field that may be null), or reject. \<open>dirname\<close> is \<^verbatim>\<open>__dirname\<close>; \<open>path_join\<close> and
  \<open>path_extname\<close> are Node's \<^verbatim>\<open>path.join\<close> and \<^verbatim>\<open>path.extname\<close>.
\<close>

record env =
  dirname :: string
  path_join :: "string \<Rightarrow> string \<Rightarrow> string"
  path_extname :: "string \<Rightarrow> string"
  listBuckets :: "(bucket list option \<times> js_error option) outcome"
  createBucket :: "string \<Rightarrow> bucket_options \<Rightarrow> js_error option outcome"
  rpc :: "string \<Rightarrow> (string \<times> string) list \<Rightarrow> js_error option outcome"
  readdirSync :: "string \<Rightarrow> string list outcome"
  readFileSync :: "string \<Rightarrow> buffer outcome"
  upload :: "string \<Rightarrow> string \<Rightarrow> buffer \<Rightarrow> upload_options \<Rightarrow> js_error option outcome"
  existsSync :: "string \<Rightarrow> bool"
  mkdirSync :: "string \<Rightarrow> unit outcome"
  writeFileSync :: "string \<Rightarrow> string \<Rightarrow> string \<Rightarrow> unit outcome"

subsection \<open>Runs: a trace and a result or a thrown error\<close>

type_synonym 'a run = "event list \<times> (js_error + 'a)"

definition done_run :: "'a \<Rightarrow> 'a run" where
  "done_run a = ([], Inr a)"

definition throw :: "js_error \<Rightarrow> 'a run" where
  "throw e = ([], Inl e)"

definition bind_run :: "'a run \<Rightarrow> ('a \<Rightarrow> 'b run) \<Rightarrow> 'b run" where
  "bind_run m f =
     (case m of
        (t, Inl e) \<Rightarrow> (t, Inl e)
      | (t, Inr a) \<Rightarrow> (case f a of (t', r) \<Rightarrow> (t @ t', r)))"

definition try_catch :: "'a run \<Rightarrow> (js_error \<Rightarrow> 'a run) \<Rightarrow> 'a run" where
  "try_catch m h =
     (case m of
        (t, Inl e) \<Rightarrow> (case h e of (t', r) \<Rightarrow> (t @ t', r))
      | (t, Inr a) \<Rightarrow> (t, Inr a))"

definition perform :: "event \<Rightarrow> 'a outcome \<Rightarrow> 'a run" where
  "perform ev out = ([ev], case out of Returns v \<Rightarrow> Inr v | Throws e \<Rightarrow> Inl e)"

definition console_log :: "string \<Rightarrow> unit run" where
  "console_log s = ([ConsoleLog s], Inr ())"

definition console_error :: "string \<Rightarrow> js_error \<Rightarrow> unit run" where
  "console_error s e = ([ConsoleError s e], Inr ())"

subsection \<open>Strings\<close>

definition nl :: string where "nl = [CHR 0x0A]"
definition dq :: string where "dq = [CHR 0x22]"
definition sq :: string where "sq = [CHR 0x27]"
definition bt :: string where "bt = [CHR 0x60]"

text \<open>\<^verbatim>\<open>s.startsWith(p)\<close>, \<^verbatim>\<open>s.endsWith(p)\<close> and \<^verbatim>\<open>s.includes(p)\<close>.\<close>

fun startsWith :: "string \<Rightarrow> string \<Rightarrow> bool" where
  "startsWith s [] = True"
| "startsWith [] (c # cs) = False"
| "startsWith (x # xs) (c # cs) = (x = c \<and> startsWith xs cs)"

definition endsWith :: "string \<Rightarrow> string \<Rightarrow> bool" where
  "endsWith s p = startsWith (rev s) (rev p)"

fun str_includes :: "string \<Rightarrow> string \<Rightarrow> bool" where
  "str_includes [] p = (p = [])"
| "str_includes (c # cs) p = (startsWith (c # cs) p \<or> str_includes cs p)"

text \<open>\<^verbatim>\<open>toLowerCase\<close> on ASCII letters; every other byte is left as it is.\<close>

definition lower_char :: "char \<Rightarrow> char" where
  "lower_char c =
     (case map_of (zip ''ABCDEFGHIJKLMNOPQRSTUVWXYZ'' ''abcdefghijklmnopqrstuvwxyz'') c of
        Some l \<Rightarrow> l
      | None \<Rightarrow> c)"

definition toLowerCase :: "string \<Rightarrow> string" where
  "toLowerCase s = map lower_char s"

text \<open>\<^verbatim>\<open>s.replace(/ /g, "_")\<close>.\<close>

definition replace_spaces :: "string \<Rightarrow> string" where
  "replace_spaces s = map (\<lambda>c. if c = CHR '' '' then CHR ''_'' else c) s"

text \<open>
  \<^verbatim>\<open>file.match(/\.(jpg|jpeg|png|gif)$/i)\<close>: the name ends in a dot and one of the four
  words, the letters compared without regard to case.
\<close>

definition match_image :: "string \<Rightarrow> bool" where
  "match_image file =
     (let l = toLowerCase file
      in endsWith l ''.jpg'' \<or> endsWith l ''.jpeg'' \<or> endsWith l ''.png'' \<or> endsWith l ''.gif'')"

text \<open>The decimal numeral a template string prints for \<^verbatim>\<open>files.length\<close>.\<close>

definition digit :: "nat \<Rightarrow> char" where
  "digit d = ''0123456789'' ! d"

fun decimal :: "nat \<Rightarrow> string" where
  "decimal n = (if n < 10 then [digit n] else decimal (n div 10) @ [digit (n mod 10)])"

subsection \<open>Constants of the script\<close>

definition BUCKET_NAME :: string where
  "BUCKET_NAME = ''disc-product-images''"

definition IMAGES_DIR :: "env \<Rightarrow> string" where
  "IMAGES_DIR env = path_join env (dirname env) ''../images''"

definition utilsDir :: "env \<Rightarrow> string" where
  "utilsDir env = path_join env (dirname env) ''../utils''"

text \<open>
  The functions below take the bucket name as their first argument \<open>bn\<close>, the value of the
  module constant \<^verbatim>\<open>BUCKET_NAME\<close>, so that the effect of changing the constant can be
  stated; \<open>main\<close> runs them at \<open>BUCKET_NAME\<close>.
\<close>

definition createOptions :: bucket_options where
  "createOptions = \<lparr> public = True, fileSizeLimit = 1024 * 1024 * 2 \<rparr>"

text \<open>Lines 54 to 88: the four policies.\<close>

definition policies :: "string \<Rightarrow> policy list" where
  "policies bn =
   [ \<lparr> name = ''Allow public uploads'',
       sql = nl @ ''          CREATE POLICY '' @ dq @ ''allow_public_uploads'' @ dq @ nl
          @ ''          ON storage.objects FOR INSERT'' @ nl
          @ ''          WITH CHECK (bucket_id = '' @ sq @ bn @ sq @ '' AND auth.role() = ''
          @ sq @ ''anon'' @ sq @ '')'' @ nl
          @ ''        '' \<rparr>,
     \<lparr> name = ''Allow public reads'',
       sql = nl @ ''          CREATE POLICY '' @ dq @ ''allow_public_reads'' @ dq @ nl
          @ ''          ON storage.objects FOR SELECT'' @ nl
          @ ''          USING (bucket_id = '' @ sq @ bn @ sq @ '')'' @ nl
          @ ''        '' \<rparr>,
     \<lparr> name = ''Allow public updates'',
       sql = nl @ ''          CREATE POLICY '' @ dq @ ''allow_public_updates'' @ dq @ nl
          @ ''          ON storage.objects FOR UPDATE'' @ nl
          @ ''          USING (bucket_id = '' @ sq @ bn @ sq @ '')'' @ nl
          @ ''          WITH CHECK (bucket_id = '' @ sq @ bn @ sq @ '')'' @ nl
          @ ''        '' \<rparr>,
     \<lparr> name = ''Allow public deletes'',
       sql = nl @ ''          CREATE POLICY '' @ dq @ ''allow_public_deletes'' @ dq @ nl
          @ ''          ON storage.objects FOR DELETE'' @ nl
          @ ''          USING (bucket_id = '' @ sq @ bn @ sq @ '')'' @ nl
          @ ''        '' \<rparr> ]"

text \<open>Lines 136 to 144: the text of the generated helper.\<close>

definition helperCode :: "string \<Rightarrow> string" where
  "helperCode bn =
     nl @ ''import { supabase } from '' @ sq @ ''../config/supabaseClient'' @ sq @ '';'' @ nl
     @ nl
     @ ''export const getPublicImageUrl = (imageName: string): string => {'' @ nl
     @ ''  const { data } = supabase.storage'' @ nl
     @ ''    .from('' @ dq @ bn @ dq @ '')'' @ nl
     @ ''    .getPublicUrl('' @ bt @ ''product-images/${imageName}'' @ bt @ '');'' @ nl
     @ ''  return data.publicUrl;'' @ nl
     @ ''};''"

subsection \<open>Lines 20 to 45: the bucket\<close>

text \<open>
  \<^verbatim>\<open>buckets?.some(...)\<close> is \<^verbatim>\<open>undefined\<close> when the listing's data is null, and
  \<^verbatim>\<open>!undefined\<close> is true: a null listing counts as a listing without the bucket.
\<close>

definition bucketExists :: "string \<Rightarrow> bucket list option \<Rightarrow> bool" where
  "bucketExists bn buckets =
     (case buckets of None \<Rightarrow> False | Some bs \<Rightarrow> list_ex (\<lambda>b. bucket_name b = bn) bs)"

definition ensureContainer :: "string \<Rightarrow> env \<Rightarrow> unit run" where
  "ensureContainer bn env =
     bind_run (perform ListBuckets (listBuckets env)) (\<lambda>(buckets, listError).
       case listError of
         Some e \<Rightarrow> throw (JsError (''Error listing buckets: '' @ message e))
       | None \<Rightarrow>
           if \<not> bucketExists bn buckets then
             bind_run (console_log (''Creating bucket: '' @ bn)) (\<lambda>_.
             bind_run (perform (CreateBucket bn createOptions) (createBucket env bn createOptions))
               (\<lambda>createError.
                  case createError of
                    Some e \<Rightarrow> throw (JsError (''Error creating bucket: '' @ message e))
                  | None \<Rightarrow> console_log ''Bucket created successfully!''))
           else console_log ''Bucket already exists, skipping creation.'')"

subsection \<open>Lines 47 to 105: row-level security and the policies\<close>

definition enable_rls_args :: "(string \<times> string) list" where
  "enable_rls_args = [(''table_name'', ''objects''), (''schema_name'', ''storage'')]"

definition policy_args :: "string \<Rightarrow> policy \<Rightarrow> (string \<times> string) list" where
  "policy_args bn p =
     [(''bucket_id'', bn),
      (''policy_name'', replace_spaces (toLowerCase (name p))),
      (''definition'', sql p)]"

text \<open>One turn of the loop of lines 90 to 105, with its own \<^verbatim>\<open>try\<close>/\<^verbatim>\<open>catch\<close>.\<close>

definition createPolicy :: "string \<Rightarrow> env \<Rightarrow> policy \<Rightarrow> unit run" where
  "createPolicy bn env p =
     try_catch
       (bind_run (console_log (''Creating policy: '' @ name p)) (\<lambda>_.
        bind_run (perform (Rpc ''create_storage_policy'' (policy_args bn p))
                    (rpc env ''create_storage_policy'' (policy_args bn p))) (\<lambda>_.
        done_run ())))
       (\<lambda>error.
          if \<not> str_includes (message error) ''already exists'' then
            console_error (''Error creating policy '' @ name p @ '':'') error
          else console_log (''Policy '' @ name p @ '' already exists''))"

fun createPolicies :: "string \<Rightarrow> env \<Rightarrow> policy list \<Rightarrow> unit run" where
  "createPolicies bn env [] = done_run ()"
| "createPolicies bn env (p # ps) =
     bind_run (createPolicy bn env p) (\<lambda>_. createPolicies bn env ps)"

definition ensureAccessRules :: "string \<Rightarrow> env \<Rightarrow> unit run" where
  "ensureAccessRules bn env =
     bind_run (console_log ''Setting up storage policies...'') (\<lambda>_.
     bind_run (perform (Rpc ''enable_rls'' enable_rls_args) (rpc env ''enable_rls'' enable_rls_args))
       (\<lambda>_.
     createPolicies bn env (policies bn)))"

subsection \<open>Lines 106 to 128: the uploads\<close>

definition uploadOptions :: "env \<Rightarrow> string \<Rightarrow> upload_options" where
  "uploadOptions env file =
     \<lparr> contentType = ''image/'' @ drop 1 (path_extname env file), upsert = True \<rparr>"

text \<open>One turn of the loop of lines 109 to 128.\<close>

definition uploadFile :: "string \<Rightarrow> env \<Rightarrow> string \<Rightarrow> unit run" where
  "uploadFile bn env file =
     (if match_image file then
        bind_run (perform (ReadFileSync (path_join env (IMAGES_DIR env) file))
                    (readFileSync env (path_join env (IMAGES_DIR env) file))) (\<lambda>fileBuffer.
        bind_run (console_log (''Uploading: '' @ file)) (\<lambda>_.
        bind_run (perform (Upload bn (''product-images/'' @ file) fileBuffer (uploadOptions env file))
                    (upload env bn (''product-images/'' @ file) fileBuffer (uploadOptions env file)))
          (\<lambda>uploadError.
             case uploadError of
               Some e \<Rightarrow> console_error (''Error uploading '' @ file @ '':'') e
             | None \<Rightarrow> console_log (''Successfully uploaded: '' @ file))))
      else done_run ())"

fun uploadFiles :: "string \<Rightarrow> env \<Rightarrow> string list \<Rightarrow> unit run" where
  "uploadFiles bn env [] = done_run ()"
| "uploadFiles bn env (file # files) =
     bind_run (uploadFile bn env file) (\<lambda>_. uploadFiles bn env files)"

definition uploadAssets :: "string \<Rightarrow> env \<Rightarrow> unit run" where
  "uploadAssets bn env =
     bind_run (perform (ReaddirSync (IMAGES_DIR env)) (readdirSync env (IMAGES_DIR env))) (\<lambda>files.
     bind_run (console_log (''Found '' @ decimal (length files) @ '' files to upload'')) (\<lambda>_.
     uploadFiles bn env files))"

subsection \<open>Lines 130 to 150: the helper file\<close>

definition helperPath :: "env \<Rightarrow> string" where
  "helperPath env = path_join env (utilsDir env) ''storageHelper.ts''"

definition writeHelper :: "string \<Rightarrow> env \<Rightarrow> unit run" where
  "writeHelper bn env =
     bind_run (perform (ExistsSync (utilsDir env)) (Returns (existsSync env (utilsDir env))))
       (\<lambda>present.
     bind_run (if \<not> present
               then perform (MkdirSync (utilsDir env)) (mkdirSync env (utilsDir env))
               else done_run ()) (\<lambda>_.
     bind_run (console_log (nl @ ''Updating public URL helper function...'')) (\<lambda>_.
     perform (WriteFileSync (helperPath env) (helperCode bn) ''utf-8'')
       (writeFileSync env (helperPath env) (helperCode bn) ''utf-8''))))"

subsection \<open>Lines 18 to 159: the whole script\<close>

definition body :: "string \<Rightarrow> env \<Rightarrow> unit run" where
  "body bn env =
     bind_run (ensureContainer bn env) (\<lambda>_.
     bind_run (ensureAccessRules bn env) (\<lambda>_.
     bind_run (uploadAssets bn env) (\<lambda>_.
     bind_run (writeHelper bn env) (\<lambda>_.
     console_log ''Storage setup completed successfully!''))))"

text \<open>
  The outer \<^verbatim>\<open>catch\<close> of lines 153 to 156 logs the error and calls \<^verbatim>\<open>process.exit(1)\<close>.
  When the body completes nothing sets an exit code, and Node ends the process with
  code 0. The result is the trace and the exit code.
\<close>

definition setupStorage :: "string \<Rightarrow> env \<Rightarrow> event list \<times> nat" where
  "setupStorage bn env =
     (case body bn env of
        (t, Inr _) \<Rightarrow> (t, 0)
      | (t, Inl error) \<Rightarrow> (t @ [ConsoleError ''Setup failed:'' error], 1))"

definition main :: "env \<Rightarrow> event list \<times> nat" where
  "main env = setupStorage BUCKET_NAME env"

section \<open>Observations and conditions\<close>

subsection \<open>What a trace contains\<close>

fun is_console :: "event \<Rightarrow> bool" where
  "is_console (ConsoleLog s) = True"
| "is_console (ConsoleError s e) = True"
| "is_console ev = False"

fun is_create_bucket :: "event \<Rightarrow> bool" where
  "is_create_bucket (CreateBucket b opts) = True"
| "is_create_bucket ev = False"


fun is_upload :: "event \<Rightarrow> bool" where
  "is_upload (Upload b p buf opts) = True"
| "is_upload ev = False"

fun is_write :: "event \<Rightarrow> bool" where
  "is_write (WriteFileSync p c enc) = True"
| "is_write ev = False"


fun upload_path :: "event \<Rightarrow> string list" where
  "upload_path (Upload b p buf opts) = [p]"
| "upload_path ev = []"

definition upload_paths :: "event list \<Rightarrow> string list" where
  "upload_paths t = concat (map upload_path t)"

subsection \<open>When each part of the script completes\<close>

text \<open>
  Conditions on the outside world, one per part of the script: the part completes (does not
  throw) exactly when its condition holds, which is proved below. No condition looks at
  what a policy call returns or throws, nor at the error an upload reports.
\<close>

definition container_ok :: "string \<Rightarrow> env \<Rightarrow> bool" where
  "container_ok bn env =
     (case listBuckets env of
        Returns (buckets, None) \<Rightarrow>
          bucketExists bn buckets \<or> createBucket env bn createOptions = Returns None
      | Returns (buckets, Some e) \<Rightarrow> False
      | Throws e \<Rightarrow> False)"

definition rls_returns :: "env \<Rightarrow> bool" where
  "rls_returns env =
     (case rpc env ''enable_rls'' enable_rls_args of Returns r \<Rightarrow> True | Throws e \<Rightarrow> False)"

definition file_ok :: "string \<Rightarrow> env \<Rightarrow> string \<Rightarrow> bool" where
  "file_ok bn env file =
     (if match_image file then
        (case readFileSync env (path_join env (IMAGES_DIR env) file) of
           Returns fileBuffer \<Rightarrow>
             (case upload env bn (''product-images/'' @ file) fileBuffer (uploadOptions env file) of
                Returns r \<Rightarrow> True
              | Throws e \<Rightarrow> False)
         | Throws e \<Rightarrow> False)
      else True)"

definition files_ok :: "string \<Rightarrow> env \<Rightarrow> bool" where
  "files_ok bn env =
     (case readdirSync env (IMAGES_DIR env) of
        Returns files \<Rightarrow> list_all (file_ok bn env) files
      | Throws e \<Rightarrow> False)"

definition dir_ok :: "env \<Rightarrow> bool" where
  "dir_ok env = (existsSync env (utilsDir env) \<or> mkdirSync env (utilsDir env) = Returns ())"

definition write_ok :: "string \<Rightarrow> env \<Rightarrow> bool" where
  "write_ok bn env = (writeFileSync env (helperPath env) (helperCode bn) ''utf-8'' = Returns ())"

subsection \<open>Sample outside worlds\<close>

text \<open>
  The script runs from \<^verbatim>\<open>/app/src/scripts\<close>. \<open>sample_join\<close> is \<^verbatim>\<open>path.join\<close> on the
  calls the script makes from there (the two sibling directories, then a plain file name
  under a directory); \<open>sample_extname\<close> is \<^verbatim>\<open>path.extname\<close> on a name without a path
  separator: from the last dot on, and empty when there is no dot, when the last dot is
  the first character, or when the name is \<^verbatim>\<open>..\<close>.
\<close>

definition sample_join :: "string \<Rightarrow> string \<Rightarrow> string" where
  "sample_join a b =
     (if b = ''../images'' then ''/app/src/images''
      else if b = ''../utils'' then ''/app/src/utils''
      else a @ ''/'' @ b)"

definition sample_extname :: "string \<Rightarrow> string" where
  "sample_extname file =
     (let ext = takeWhile (\<lambda>c. c \<noteq> CHR ''.'') (rev file);
          stem = drop (length ext + 1) (rev file)
      in if CHR ''.'' \<notin> set file \<or> stem = [] \<or> file = ''..'' then []
         else CHR ''.'' # rev ext)"

definition env_ok :: env where
  "env_ok =
     \<lparr> dirname = ''/app/src/scripts'',
       path_join = sample_join,
       path_extname = sample_extname,
       listBuckets = Returns (Some [Bucket ''avatars'', Bucket ''disc-product-images''], None),
       createBucket = (\<lambda>b opts. Returns None),
       rpc = (\<lambda>f args. Returns None),
       readdirSync = (\<lambda>d. Returns [''a.png'', ''b.txt'', ''c.JPG'']),
       readFileSync = (\<lambda>p. Returns ''image bytes''),
       upload = (\<lambda>b p buf opts. Returns None),
       existsSync = (\<lambda>p. True),
       mkdirSync = (\<lambda>p. Returns ()),
       writeFileSync = (\<lambda>p c enc. Returns ()) \<rparr>"

definition env_list_error :: env where
  "env_list_error = env_ok \<lparr> listBuckets := Returns (None, Some (JsError ''Invalid API key'')) \<rparr>"

definition env_partial :: env where
  "env_partial =
     env_ok \<lparr> rpc := (\<lambda>f args. if f = ''enable_rls'' then Returns None
                              else Throws (JsError ''permission denied for schema storage'')),
              upload := (\<lambda>b p buf opts. if p = ''product-images/a.png''
                                        then Returns (Some (JsError ''Payload too large''))
                                        else Returns None) \<rparr>"

definition env_fresh :: env where
  "env_fresh =
     env_ok \<lparr> listBuckets := Returns (Some [Bucket ''avatars''], None),
              existsSync := (\<lambda>p. False) \<rparr>"

definition env_create_error :: env where
  "env_create_error =
     env_fresh \<lparr> createBucket := (\<lambda>b opts. Returns (Some (JsError ''Bucket limit reached''))) \<rparr>"

definition env_policy_exists :: env where
  "env_policy_exists =
     env_ok \<lparr> rpc := (\<lambda>f args. if f = ''enable_rls'' then Returns None
                              else Throws (JsError ''policy already exists'')) \<rparr>"

definition env_policy_denied :: env where
  "env_policy_denied =
     env_ok \<lparr> rpc := (\<lambda>f args. if f = ''create_storage_policy''
                              then Returns (Some (JsError ''permission denied for schema storage''))
                              else Returns None) \<rparr>"

definition env_unreadable :: env where
  "env_unreadable =
     env_ok \<lparr> readFileSync := (\<lambda>p. if p = ''/app/src/images/a.png''
                                     then Throws (JsError ''EACCES: permission denied'')
                                     else Returns ''image bytes'') \<rparr>"

definition env_no_images :: env where
  "env_no_images =
     env_ok \<lparr> readdirSync := (\<lambda>d. Throws (JsError ''ENOENT: no such file or directory'')) \<rparr>"

section \<open>Lemmas\<close>

subsection \<open>Sequencing\<close>

lemma fst_bind_run:
  "fst (bind_run m f) = fst m @ (case snd m of Inl e \<Rightarrow> [] | Inr a \<Rightarrow> fst (f a))"
  by (auto simp: bind_run_def split: prod.splits sum.splits)

lemma snd_bind_run:
  "snd (bind_run m f) = (case snd m of Inl e \<Rightarrow> Inl e | Inr a \<Rightarrow> snd (f a))"
  by (auto simp: bind_run_def split: prod.splits sum.splits)

lemma ensureContainer_eq:
  "ensureContainer bn env =
     (case listBuckets env of
        Throws e \<Rightarrow> ([ListBuckets], Inl e)
      | Returns (buckets, Some e) \<Rightarrow>
          ([ListBuckets], Inl (JsError (''Error listing buckets: '' @ message e)))
      | Returns (buckets, None) \<Rightarrow>
          if bucketExists bn buckets
          then ([ListBuckets, ConsoleLog ''Bucket already exists, skipping creation.''], Inr ())
          else (case createBucket env bn createOptions of
                  Throws e \<Rightarrow>
                    ([ListBuckets, ConsoleLog (''Creating bucket: '' @ bn),
                      CreateBucket bn createOptions], Inl e)
                | Returns (Some e) \<Rightarrow>
                    ([ListBuckets, ConsoleLog (''Creating bucket: '' @ bn),
                      CreateBucket bn createOptions],
                     Inl (JsError (''Error creating bucket: '' @ message e)))
                | Returns None \<Rightarrow>
                    ([ListBuckets, ConsoleLog (''Creating bucket: '' @ bn),
                      CreateBucket bn createOptions,
                      ConsoleLog ''Bucket created successfully!''], Inr ())))"
  by (simp add: ensureContainer_def bind_run_def perform_def console_log_def throw_def
      split: outcome.splits option.splits prod.splits)

lemma createPolicy_eq:
  "createPolicy bn env p =
     (case rpc env ''create_storage_policy'' (policy_args bn p) of
        Returns r \<Rightarrow>
          ([ConsoleLog (''Creating policy: '' @ name p),
            Rpc ''create_storage_policy'' (policy_args bn p)], Inr ())
      | Throws e \<Rightarrow>
          ([ConsoleLog (''Creating policy: '' @ name p),
            Rpc ''create_storage_policy'' (policy_args bn p),
            if str_includes (message e) ''already exists''
            then ConsoleLog (''Policy '' @ name p @ '' already exists'')
            else ConsoleError (''Error creating policy '' @ name p @ '':'') e], Inr ()))"
  by (simp add: createPolicy_def try_catch_def bind_run_def perform_def console_log_def
      console_error_def done_run_def split: outcome.splits)

lemma snd_createPolicy: "snd (createPolicy bn env p) = Inr ()"
  by (simp add: createPolicy_eq split: outcome.splits)

lemma createPolicies_eq:
  "createPolicies bn env ps = (concat (map (\<lambda>p. fst (createPolicy bn env p)) ps), Inr ())"
proof (induction ps)
  case Nil
  show ?case by (simp add: done_run_def)
next
  case (Cons p ps)
  then show ?case
    by (simp add: prod_eq_iff fst_bind_run snd_bind_run snd_createPolicy)
qed

lemma ensureAccessRules_eq:
  "ensureAccessRules bn env =
     (case rpc env ''enable_rls'' enable_rls_args of
        Throws e \<Rightarrow>
          ([ConsoleLog ''Setting up storage policies...'', Rpc ''enable_rls'' enable_rls_args],
           Inl e)
      | Returns r \<Rightarrow>
          (ConsoleLog ''Setting up storage policies...'' # Rpc ''enable_rls'' enable_rls_args
             # concat (map (\<lambda>p. fst (createPolicy bn env p)) (policies bn)), Inr ()))"
  by (simp add: ensureAccessRules_def createPolicies_eq bind_run_def perform_def console_log_def
      split: outcome.splits)

lemma uploadFile_eq:
  "uploadFile bn env file =
     (if match_image file then
        (case readFileSync env (path_join env (IMAGES_DIR env) file) of
           Throws e \<Rightarrow> ([ReadFileSync (path_join env (IMAGES_DIR env) file)], Inl e)
         | Returns fileBuffer \<Rightarrow>
             (case upload env bn (''product-images/'' @ file) fileBuffer (uploadOptions env file) of
                Throws e \<Rightarrow>
                  ([ReadFileSync (path_join env (IMAGES_DIR env) file),
                    ConsoleLog (''Uploading: '' @ file),
                    Upload bn (''product-images/'' @ file) fileBuffer (uploadOptions env file)],
                   Inl e)
              | Returns (Some e) \<Rightarrow>
                  ([ReadFileSync (path_join env (IMAGES_DIR env) file),
                    ConsoleLog (''Uploading: '' @ file),
                    Upload bn (''product-images/'' @ file) fileBuffer (uploadOptions env file),
                    ConsoleError (''Error uploading '' @ file @ '':'') e], Inr ())
              | Returns None \<Rightarrow>
                  ([ReadFileSync (path_join env (IMAGES_DIR env) file),
                    ConsoleLog (''Uploading: '' @ file),
                    Upload bn (''product-images/'' @ file) fileBuffer (uploadOptions env file),
                    ConsoleLog (''Successfully uploaded: '' @ file)], Inr ())))
      else ([], Inr ()))"
  by (simp add: uploadFile_def bind_run_def perform_def console_log_def console_error_def
      done_run_def split: outcome.splits option.splits)

lemma snd_uploadFile: "(snd (uploadFile bn env file) = Inr ()) = file_ok bn env file"
  by (simp add: uploadFile_eq file_ok_def split: outcome.splits option.splits)

lemma snd_uploadFiles: "(snd (uploadFiles bn env files) = Inr ()) = list_all (file_ok bn env) files"
proof (induction files)
  case Nil
  show ?case by (simp add: done_run_def)
next
  case (Cons f fs)
  show ?case
  proof (cases "snd (uploadFile bn env f)")
    case (Inl e)
    with snd_uploadFile [of bn env f] show ?thesis
      by (simp add: snd_bind_run)
  next
    case (Inr u)
    with snd_uploadFile [of bn env f] Cons.IH show ?thesis
      by (simp add: snd_bind_run)
  qed
qed

lemma writeHelper_eq:
  "writeHelper bn env =
     (if existsSync env (utilsDir env) then
        ([ExistsSync (utilsDir env),
          ConsoleLog (nl @ ''Updating public URL helper function...''),
          WriteFileSync (helperPath env) (helperCode bn) ''utf-8''],
         case writeFileSync env (helperPath env) (helperCode bn) ''utf-8'' of
           Returns u \<Rightarrow> Inr () | Throws e \<Rightarrow> Inl e)
      else
        (case mkdirSync env (utilsDir env) of
           Throws e \<Rightarrow> ([ExistsSync (utilsDir env), MkdirSync (utilsDir env)], Inl e)
         | Returns u \<Rightarrow>
             ([ExistsSync (utilsDir env), MkdirSync (utilsDir env),
               ConsoleLog (nl @ ''Updating public URL helper function...''),
               WriteFileSync (helperPath env) (helperCode bn) ''utf-8''],
              case writeFileSync env (helperPath env) (helperCode bn) ''utf-8'' of
                Returns u \<Rightarrow> Inr () | Throws e \<Rightarrow> Inl e)))"
  by (simp add: writeHelper_def bind_run_def perform_def console_log_def done_run_def
      split: outcome.splits)

lemma snd_ensureContainer: "(snd (ensureContainer bn env) = Inr ()) = container_ok bn env"
  by (simp add: ensureContainer_eq container_ok_def split: outcome.splits option.splits prod.splits)

lemma snd_ensureAccessRules: "(snd (ensureAccessRules bn env) = Inr ()) = rls_returns env"
  by (simp add: ensureAccessRules_eq rls_returns_def split: outcome.splits)

lemma snd_uploadAssets: "(snd (uploadAssets bn env) = Inr ()) = files_ok bn env"
  by (simp add: uploadAssets_def files_ok_def snd_bind_run perform_def console_log_def
      snd_uploadFiles split: outcome.splits)

lemma snd_writeHelper: "(snd (writeHelper bn env) = Inr ()) = (dir_ok env \<and> write_ok bn env)"
  by (auto simp: writeHelper_eq dir_ok_def write_ok_def split: outcome.splits)

subsection \<open>The whole script\<close>

lemma fst_setupStorage:
  "fst (setupStorage bn env) =
     fst (body bn env)
       @ (case snd (body bn env) of Inr u \<Rightarrow> [] | Inl e \<Rightarrow> [ConsoleError ''Setup failed:'' e])"
  by (simp add: setupStorage_def split: prod.splits sum.splits)

lemma snd_setupStorage:
  "snd (setupStorage bn env) = (case snd (body bn env) of Inr u \<Rightarrow> 0 | Inl e \<Rightarrow> 1)"
  by (simp add: setupStorage_def split: prod.splits sum.splits)

lemma unit_run_cases: "snd (m :: unit run) = Inr () \<or> (\<exists>e. snd m = Inl e)"
  by (cases "snd m") auto

lemma snd_body:
  "(snd (body bn env) = Inr ()) =
     (container_ok bn env \<and> rls_returns env \<and> files_ok bn env \<and> dir_ok env \<and> write_ok bn env)"
  using unit_run_cases [of "ensureContainer bn env"] unit_run_cases [of "ensureAccessRules bn env"]
    unit_run_cases [of "uploadAssets bn env"] unit_run_cases [of "writeHelper bn env"]
    snd_ensureContainer [of bn env] snd_ensureAccessRules [of bn env]
    snd_uploadAssets [of bn env] snd_writeHelper [of bn env]
  by (auto simp: body_def snd_bind_run console_log_def)

lemma ensureContainer_events:
  "ev \<in> set (fst (ensureContainer bn env)) \<Longrightarrow>
     is_console ev \<or> ev = ListBuckets \<or> ev = CreateBucket bn createOptions"
  by (auto simp: ensureContainer_eq split: outcome.splits option.splits prod.splits if_splits)

lemma createPolicy_events:
  "ev \<in> set (fst (createPolicy bn env p)) \<Longrightarrow>
     is_console ev \<or> ev = Rpc ''create_storage_policy'' (policy_args bn p)"
  by (auto simp: createPolicy_eq split: outcome.splits if_splits)

lemma ensureAccessRules_events:
  "ev \<in> set (fst (ensureAccessRules bn env)) \<Longrightarrow>
     is_console ev \<or> ev = Rpc ''enable_rls'' enable_rls_args
     \<or> (\<exists>p \<in> set (policies bn). ev = Rpc ''create_storage_policy'' (policy_args bn p))"
  by (auto simp: ensureAccessRules_eq split: outcome.splits dest: createPolicy_events)

lemma uploadFile_events:
  "ev \<in> set (fst (uploadFile bn env file)) \<Longrightarrow>
     is_console ev \<or> ev = ReadFileSync (path_join env (IMAGES_DIR env) file)
     \<or> (\<exists>fileBuffer. match_image file
           \<and> readFileSync env (path_join env (IMAGES_DIR env) file) = Returns fileBuffer
           \<and> ev = Upload bn (''product-images/'' @ file) fileBuffer (uploadOptions env file))"
  by (auto simp: uploadFile_eq split: outcome.splits option.splits if_splits)

lemma uploadFiles_events:
  "ev \<in> set (fst (uploadFiles bn env files)) \<Longrightarrow>
     \<exists>file \<in> set files. ev \<in> set (fst (uploadFile bn env file))"
  by (induction files) (auto simp: done_run_def fst_bind_run split: sum.splits)

lemma uploadAssets_events:
  "ev \<in> set (fst (uploadAssets bn env)) \<Longrightarrow>
     is_console ev \<or> ev = ReaddirSync (IMAGES_DIR env)
     \<or> (\<exists>files file. readdirSync env (IMAGES_DIR env) = Returns files \<and> file \<in> set files
           \<and> ev \<in> set (fst (uploadFile bn env file)))"
  by (auto simp: uploadAssets_def fst_bind_run perform_def console_log_def
      split: outcome.splits sum.splits dest: uploadFiles_events)

lemma writeHelper_events:
  "ev \<in> set (fst (writeHelper bn env)) \<Longrightarrow>
     is_console ev \<or> ev = ExistsSync (utilsDir env) \<or> ev = MkdirSync (utilsDir env)
     \<or> ev = WriteFileSync (helperPath env) (helperCode bn) ''utf-8''"
  by (auto simp: writeHelper_eq split: outcome.splits if_splits)

lemma body_events:
  "ev \<in> set (fst (body bn env)) \<Longrightarrow>
     is_console ev \<or> ev \<in> set (fst (ensureContainer bn env))
     \<or> ev \<in> set (fst (ensureAccessRules bn env))
     \<or> ev \<in> set (fst (uploadAssets bn env))
     \<or> ev \<in> set (fst (writeHelper bn env))"
  by (auto simp: body_def fst_bind_run console_log_def split: sum.splits)

lemma setupStorage_events:
  "ev \<in> set (fst (setupStorage bn env)) \<Longrightarrow>
     is_console ev \<or> ev \<in> set (fst (ensureContainer bn env))
     \<or> ev \<in> set (fst (ensureAccessRules bn env))
     \<or> ev \<in> set (fst (uploadAssets bn env))
     \<or> ev \<in> set (fst (writeHelper bn env))"
  by (auto simp: fst_setupStorage split: sum.splits dest: body_events)

lemma later_events_kinds:
  assumes "ev \<in> set (fst (ensureAccessRules bn env)) \<or> ev \<in> set (fst (uploadAssets bn env))
           \<or> ev \<in> set (fst (writeHelper bn env))"
  shows "\<not> is_create_bucket ev"
  using assms
  by (cases ev)
    (auto dest!: ensureAccessRules_events uploadAssets_events writeHelper_events
       uploadFile_events)

lemma setupStorage_split:
  "\<exists>rest. fst (setupStorage bn env) = fst (ensureContainer bn env) @ rest
     \<and> (\<forall>ev \<in> set rest. is_console ev \<or> ev \<in> set (fst (ensureAccessRules bn env))
            \<or> ev \<in> set (fst (uploadAssets bn env)) \<or> ev \<in> set (fst (writeHelper bn env)))"
  by (auto simp: fst_setupStorage body_def fst_bind_run snd_bind_run console_log_def
      split: sum.splits)

lemma create_requests:
  "filter is_create_bucket (fst (setupStorage bn env)) =
     filter is_create_bucket (fst (ensureContainer bn env))"
proof -
  obtain rest where r: "fst (setupStorage bn env) = fst (ensureContainer bn env) @ rest"
    and k: "\<forall>ev \<in> set rest. is_console ev \<or> ev \<in> set (fst (ensureAccessRules bn env))
            \<or> ev \<in> set (fst (uploadAssets bn env)) \<or> ev \<in> set (fst (writeHelper bn env))"
    using setupStorage_split by blast
  have "\<forall>ev \<in> set rest. \<not> is_create_bucket ev"
  proof
    fix ev assume "ev \<in> set rest"
    with k have "is_console ev \<or> ev \<in> set (fst (ensureAccessRules bn env))
            \<or> ev \<in> set (fst (uploadAssets bn env)) \<or> ev \<in> set (fst (writeHelper bn env))"
      by blast
    then show "\<not> is_create_bucket ev"
      using later_events_kinds [of ev bn env] by (cases ev) auto
  qed
  then have "filter is_create_bucket rest = []"
    by (simp add: filter_empty_conv)
  with r show ?thesis by simp
qed

lemma bucketExists_iff:
  "bucketExists bn buckets = (\<exists>bs. buckets = Some bs \<and> bn \<in> bucket_name ` set bs)"
  by (auto simp: bucketExists_def list_ex_iff split: option.splits)

lemma abort_in_container:
  "ensureContainer bn env = (t, Inl e) \<Longrightarrow>
     setupStorage bn env = (t @ [ConsoleError ''Setup failed:'' e], 1)"
  by (simp add: setupStorage_def body_def bind_run_def)



lemma createPolicies_append:
  "createPolicies bn env (ps @ qs) =
     (fst (createPolicies bn env ps) @ fst (createPolicies bn env qs), Inr ())"
  by (simp add: createPolicies_eq)


lemma ensureContainer_rpc_update: "ensureContainer bn (env\<lparr>rpc := g\<rparr>) = ensureContainer bn env"
  by (simp add: ensureContainer_eq split: outcome.splits option.splits prod.splits)

lemma uploadFile_rpc_update: "uploadFile bn (env\<lparr>rpc := g\<rparr>) file = uploadFile bn env file"
  by (simp add: uploadFile_eq IMAGES_DIR_def uploadOptions_def
      split: outcome.splits option.splits)

lemma uploadFiles_rpc_update: "uploadFiles bn (env\<lparr>rpc := g\<rparr>) files = uploadFiles bn env files"
  by (induction files) (simp_all add: uploadFile_rpc_update)

lemma uploadAssets_rpc_update: "uploadAssets bn (env\<lparr>rpc := g\<rparr>) = uploadAssets bn env"
  by (simp add: uploadAssets_def IMAGES_DIR_def uploadFiles_rpc_update)

lemma writeHelper_rpc_update: "writeHelper bn (env\<lparr>rpc := g\<rparr>) = writeHelper bn env"
  by (simp add: writeHelper_eq utilsDir_def helperPath_def split: outcome.splits)

lemma setupStorage_rpc_update:
  "ensureAccessRules bn (env\<lparr>rpc := g\<rparr>) = ensureAccessRules bn env \<Longrightarrow>
     setupStorage bn (env\<lparr>rpc := g\<rparr>) = setupStorage bn env"
  by (simp add: setupStorage_def body_def ensureContainer_rpc_update uploadAssets_rpc_update
      writeHelper_rpc_update)

lemma createPolicy_returns:
  "rpc env ''create_storage_policy'' (policy_args bn p) = Returns r \<Longrightarrow>
     createPolicy bn env p =
       ([ConsoleLog (''Creating policy: '' @ name p),
         Rpc ''create_storage_policy'' (policy_args bn p)], Inr ())"
  by (simp add: createPolicy_eq)



lemma startsWith_iff: "startsWith s p = (\<exists>r. s = p @ r)"
  by (induction s p rule: startsWith.induct) auto

lemma str_includes_iff: "str_includes s p = (\<exists>a b. s = a @ p @ b)"
proof (induction s)
  case Nil
  show ?case by simp
next
  case (Cons c cs)
  show ?case
  proof
    assume "str_includes (c # cs) p"
    then consider "startsWith (c # cs) p" | "str_includes cs p" by auto
    then show "\<exists>a b. c # cs = a @ p @ b"
    proof cases
      case 1
      then obtain r where "c # cs = p @ r" by (auto simp: startsWith_iff)
      then have "c # cs = [] @ p @ r" by simp
      then show ?thesis by blast
    next
      case 2
      with Cons.IH obtain a b where "cs = a @ p @ b" by blast
      then have "c # cs = (c # a) @ p @ b" by simp
      then show ?thesis by blast
    qed
  next
    assume "\<exists>a b. c # cs = a @ p @ b"
    then obtain a b where e: "c # cs = a @ p @ b" by blast
    show "str_includes (c # cs) p"
    proof (cases a)
      case Nil
      with e have "startsWith (c # cs) p" by (auto simp: startsWith_iff)
      then show ?thesis by simp
    next
      case (Cons d a')
      with e have "cs = a' @ p @ b" by simp
      with Cons.IH have "str_includes cs p" by blast
      then show ?thesis by simp
    qed
  qed
qed

lemma str_includes_mid: "str_includes (a @ p @ b) p"
  by (auto simp: str_includes_iff)

lemma trace_setupStorage:
  "fst (setupStorage bn env) =
     fst (ensureContainer bn env)
     @ (if container_ok bn env then
          fst (ensureAccessRules bn env)
          @ (if rls_returns env then
               fst (uploadAssets bn env)
               @ (if files_ok bn env then
                    fst (writeHelper bn env)
                    @ (if dir_ok env \<and> write_ok bn env
                       then [ConsoleLog ''Storage setup completed successfully!''] else [])
                  else [])
             else [])
        else [])
     @ (case snd (body bn env) of Inr u \<Rightarrow> [] | Inl e \<Rightarrow> [ConsoleError ''Setup failed:'' e])"
  using snd_ensureContainer [of bn env] snd_ensureAccessRules [of bn env]
    snd_uploadAssets [of bn env] snd_writeHelper [of bn env]
  by (auto simp: fst_setupStorage body_def fst_bind_run snd_bind_run console_log_def
      split: sum.splits)

lemma exit_code:
  "snd (setupStorage bn env) =
     (if container_ok bn env \<and> rls_returns env \<and> files_ok bn env \<and> dir_ok env
         \<and> write_ok bn env then 0 else 1)"
  using snd_body [of bn env] by (auto simp: snd_setupStorage split: sum.splits)

lemma no_upload_elsewhere:
  "ev \<in> set (fst (ensureContainer bn env)) \<or> ev \<in> set (fst (ensureAccessRules bn env))
     \<or> ev \<in> set (fst (writeHelper bn env)) \<Longrightarrow> \<not> is_upload ev"
  by (cases ev) (auto dest!: ensureContainer_events ensureAccessRules_events writeHelper_events)

lemma no_write_elsewhere:
  "ev \<in> set (fst (ensureContainer bn env)) \<or> ev \<in> set (fst (ensureAccessRules bn env))
     \<or> ev \<in> set (fst (uploadAssets bn env)) \<Longrightarrow> \<not> is_write ev"
  by (cases ev)
    (auto dest!: ensureContainer_events ensureAccessRules_events uploadAssets_events
       uploadFile_events)

lemma upload_paths_append: "upload_paths (s @ t) = upload_paths s @ upload_paths t"
  by (simp add: upload_paths_def)

lemma upload_paths_none: "(\<And>ev. ev \<in> set t \<Longrightarrow> \<not> is_upload ev) \<Longrightarrow> upload_paths t = []"
proof (induction t)
  case Nil
  show ?case by (simp add: upload_paths_def)
next
  case (Cons a t)
  have "\<not> is_upload a" using Cons.prems by simp
  then have "upload_path a = []" by (cases a) simp_all
  moreover have "upload_paths t = []" using Cons by simp
  ultimately show ?case by (simp add: upload_paths_def)
qed

lemma upload_paths_filter: "upload_paths t = upload_paths (filter is_upload t)"
proof (induction t)
  case Nil
  show ?case by simp
next
  case (Cons a t)
  then show ?case by (cases a) (simp_all add: upload_paths_def)
qed

lemma uploads_setupStorage:
  "filter is_upload (fst (setupStorage bn env)) =
     (if container_ok bn env \<and> rls_returns env
      then filter is_upload (fst (uploadAssets bn env)) else [])"
proof -
  have "filter is_upload (fst (ensureContainer bn env)) = []"
    "filter is_upload (fst (ensureAccessRules bn env)) = []"
    "filter is_upload (fst (writeHelper bn env)) = []"
    using no_upload_elsewhere [of _ bn env] by (simp_all add: filter_empty_conv)
  then show ?thesis
    by (simp add: trace_setupStorage split: sum.splits)
qed

lemma writes_setupStorage:
  "filter is_write (fst (setupStorage bn env)) =
     (if container_ok bn env \<and> rls_returns env \<and> files_ok bn env
      then filter is_write (fst (writeHelper bn env)) else [])"
proof -
  have "filter is_write (fst (ensureContainer bn env)) = []"
    "filter is_write (fst (ensureAccessRules bn env)) = []"
    "filter is_write (fst (uploadAssets bn env)) = []"
    using no_write_elsewhere [of _ bn env] by (simp_all add: filter_empty_conv)
  then show ?thesis
    by (simp add: trace_setupStorage split: sum.splits)
qed

lemma upload_paths_uploadFile:
  "upload_paths (fst (uploadFile bn env file)) =
     (if match_image file then
        (case readFileSync env (path_join env (IMAGES_DIR env) file) of
           Returns fileBuffer \<Rightarrow> [''product-images/'' @ file]
         | Throws e \<Rightarrow> [])
      else [])"
  by (simp add: uploadFile_eq upload_paths_def split: outcome.splits option.splits)

lemma upload_paths_uploadFiles:
  "list_all (file_ok bn env) files \<Longrightarrow>
     upload_paths (fst (uploadFiles bn env files)) =
       map (\<lambda>f. ''product-images/'' @ f) (filter match_image files)"
proof (induction files)
  case Nil
  show ?case by (simp add: done_run_def upload_paths_def)
next
  case (Cons f fs)
  then have ok: "file_ok bn env f" and rest: "list_all (file_ok bn env) fs" by simp_all
  from ok have s: "snd (uploadFile bn env f) = Inr ()" by (simp add: snd_uploadFile)
  from ok have "upload_paths (fst (uploadFile bn env f)) =
      (if match_image f then [''product-images/'' @ f] else [])"
    by (auto simp: upload_paths_uploadFile file_ok_def split: outcome.splits)
  with s Cons.IH [OF rest] show ?case
    by (simp add: fst_bind_run upload_paths_append)
qed

lemma upload_paths_uploadFiles_prefix:
  "prefix (upload_paths (fst (uploadFiles bn env files)))
     (map (\<lambda>f. ''product-images/'' @ f) (filter match_image files))"
proof (induction files)
  case Nil
  show ?case by (simp add: done_run_def upload_paths_def)
next
  case (Cons f fs)
  show ?case
  proof (cases "snd (uploadFile bn env f)")
    case (Inl e)
    then show ?thesis
      by (auto simp: fst_bind_run upload_paths_uploadFile split: outcome.splits)
  next
    case (Inr u)
    then have "file_ok bn env f" using snd_uploadFile [of bn env f] by simp
    then have "upload_paths (fst (uploadFile bn env f)) =
        (if match_image f then [''product-images/'' @ f] else [])"
      by (auto simp: upload_paths_uploadFile file_ok_def split: outcome.splits)
    with Inr Cons.IH show ?thesis
      by (simp add: fst_bind_run upload_paths_append)
  qed
qed

lemma uploadFiles_stops:
  "match_image file \<Longrightarrow>
   readFileSync env (path_join env (IMAGES_DIR env) file) = Throws e \<Longrightarrow>
     prefix (upload_paths (fst (uploadFiles bn env (pre @ file # post))))
       (map (\<lambda>f. ''product-images/'' @ f) (filter match_image pre))"
proof (induction pre)
  case Nil
  then show ?case
    by (simp add: fst_bind_run uploadFile_eq upload_paths_def)
next
  case (Cons f fs)
  show ?case
  proof (cases "snd (uploadFile bn env f)")
    case (Inl e')
    then show ?thesis
      by (auto simp: fst_bind_run upload_paths_uploadFile split: outcome.splits)
  next
    case (Inr u)
    then have "file_ok bn env f" using snd_uploadFile [of bn env f] by simp
    then have "upload_paths (fst (uploadFile bn env f)) =
        (if match_image f then [''product-images/'' @ f] else [])"
      by (auto simp: upload_paths_uploadFile file_ok_def split: outcome.splits)
    with Inr Cons.IH [OF Cons.prems] show ?thesis
      by (simp add: fst_bind_run upload_paths_append)
  qed
qed

lemma uploadFiles_reaches:
  "list_all (file_ok bn env) pre \<Longrightarrow> match_image file \<Longrightarrow>
   readFileSync env (path_join env (IMAGES_DIR env) file) = Throws e \<Longrightarrow>
     snd (uploadFiles bn env (pre @ file # post)) = Inl e
     \<and> upload_paths (fst (uploadFiles bn env (pre @ file # post))) =
         map (\<lambda>f. ''product-images/'' @ f) (filter match_image pre)"
proof (induction pre)
  case Nil
  then show ?case
    by (simp add: fst_bind_run snd_bind_run uploadFile_eq upload_paths_def)
next
  case (Cons f fs)
  then have ok: "file_ok bn env f" and rest: "list_all (file_ok bn env) fs" by simp_all
  from ok have s: "snd (uploadFile bn env f) = Inr ()" by (simp add: snd_uploadFile)
  from ok have "upload_paths (fst (uploadFile bn env f)) =
      (if match_image f then [''product-images/'' @ f] else [])"
    by (auto simp: upload_paths_uploadFile file_ok_def split: outcome.splits)
  with s Cons.IH [OF rest Cons.prems(2) Cons.prems(3)] show ?case
    by (simp add: fst_bind_run snd_bind_run upload_paths_append)
qed

lemma upload_paths_uploadAssets:
  "upload_paths (fst (uploadAssets bn env)) =
     (case readdirSync env (IMAGES_DIR env) of
        Returns files \<Rightarrow> upload_paths (fst (uploadFiles bn env files))
      | Throws e \<Rightarrow> [])"
  by (simp add: uploadAssets_def fst_bind_run perform_def console_log_def upload_paths_def
      split: outcome.splits)

lemma upload_paths_setupStorage:
  "upload_paths (fst (setupStorage bn env)) =
     (if container_ok bn env \<and> rls_returns env
      then upload_paths (fst (uploadAssets bn env)) else [])"
proof -
  have "upload_paths (fst (setupStorage bn env)) =
      upload_paths (filter is_upload (fst (setupStorage bn env)))"
    by (rule upload_paths_filter)
  also have "\<dots> = (if container_ok bn env \<and> rls_returns env
      then upload_paths (filter is_upload (fst (uploadAssets bn env))) else upload_paths [])"
    by (simp add: uploads_setupStorage)
  also have "\<dots> = (if container_ok bn env \<and> rls_returns env
      then upload_paths (fst (uploadAssets bn env)) else [])"
    using upload_paths_filter [of "fst (uploadAssets bn env)"] by (simp add: upload_paths_def)
  finally show ?thesis .
qed


lemma helperCode_split:
  "helperCode bn =
     (nl @ ''import { supabase } from '' @ sq @ ''../config/supabaseClient'' @ sq @ '';'' @ nl
      @ nl
      @ ''export const getPublicImageUrl = (imageName: string): string => {'' @ nl
      @ ''  const { data } = supabase.storage'' @ nl
      @ ''    .from('' @ dq)
     @ bn
     @ (dq @ '')'' @ nl
        @ ''    .getPublicUrl('' @ bt @ ''product-images/${imageName}'' @ bt @ '');'' @ nl
        @ ''  return data.publicUrl;'' @ nl
        @ ''};'')"
  by (simp add: helperCode_def)

lemma helperCode_inj: "(helperCode bn = helperCode bn') = (bn = bn')"
  by (simp add: helperCode_split)

lemma helperCode_includes: "str_includes (helperCode bn) bn"
  unfolding helperCode_split by (rule str_includes_mid)

lemma env_ok_reaches:
  "container_ok BUCKET_NAME env_ok \<and> rls_returns env_ok"
  by (simp add: container_ok_def rls_returns_def env_ok_def BUCKET_NAME_def bucketExists_def)

lemma match_image_samples:
  "match_image ''a.png'' \<and> \<not> match_image ''b.txt'' \<and> match_image ''c.JPG''"
  by (simp add: match_image_def toLowerCase_def lower_char_def endsWith_def)

lemma env_partial_ok:
  "container_ok BUCKET_NAME env_partial \<and> rls_returns env_partial
   \<and> files_ok BUCKET_NAME env_partial \<and> dir_ok env_partial \<and> write_ok BUCKET_NAME env_partial"
  by (simp add: container_ok_def rls_returns_def files_ok_def file_ok_def dir_ok_def write_ok_def
      env_partial_def env_ok_def BUCKET_NAME_def bucketExists_def match_image_def
      toLowerCase_def lower_char_def endsWith_def)

text \<open>
  The test of line 110 in words: the name is some stem, a dot, and an extension that is one
  of the four words once its ASCII letters are lowered.
\<close>

lemma endsWith_iff: "endsWith s p = (\<exists>a. s = a @ p)"
proof -
  have "(\<exists>r. rev s = rev p @ r) = (\<exists>a. s = a @ p)"
  proof
    assume "\<exists>r. rev s = rev p @ r"
    then obtain r where "rev s = rev p @ r" by blast
    then have "rev (rev s) = rev (rev p @ r)" by simp
    then have "s = rev r @ p" by simp
    then show "\<exists>a. s = a @ p" by blast
  next
    assume "\<exists>a. s = a @ p"
    then obtain a where "s = a @ p" by blast
    then have "rev s = rev p @ rev a" by simp
    then show "\<exists>r. rev s = rev p @ r" by blast
  qed
  then show ?thesis by (simp add: endsWith_def startsWith_iff)
qed

lemma lower_char_dot: "(lower_char c = CHR ''.'') = (c = CHR ''.'')"
  by (auto simp: lower_char_def split: option.splits if_splits)

lemma lowered_suffix:
  "(\<exists>a. toLowerCase file = a @ CHR ''.'' # w) =
     (\<exists>stem ext. file = stem @ CHR ''.'' # ext \<and> toLowerCase ext = w)"
proof
  assume "\<exists>a. toLowerCase file = a @ CHR ''.'' # w"
  then obtain a where "map lower_char file = a @ CHR ''.'' # w"
    by (auto simp: toLowerCase_def)
  then obtain us vs where f: "file = us @ vs" and v: "CHR ''.'' # w = map lower_char vs"
    by (auto simp: map_eq_append_conv)
  from v obtain z zs where z: "vs = z # zs" "lower_char z = CHR ''.''" "w = map lower_char zs"
    by (cases vs) auto
  from z(2) have "z = CHR ''.''" by (simp add: lower_char_dot)
  with f z have "file = us @ CHR ''.'' # zs \<and> toLowerCase zs = w"
    by (simp add: toLowerCase_def)
  then show "\<exists>stem ext. file = stem @ CHR ''.'' # ext \<and> toLowerCase ext = w" by blast
next
  assume "\<exists>stem ext. file = stem @ CHR ''.'' # ext \<and> toLowerCase ext = w"
  then obtain stem ext where "file = stem @ CHR ''.'' # ext" "toLowerCase ext = w" by blast
  then have "toLowerCase file = toLowerCase stem @ CHR ''.'' # w"
    by (simp add: toLowerCase_def lower_char_dot)
  then show "\<exists>a. toLowerCase file = a @ CHR ''.'' # w" by blast
qed

lemma match_image_iff:
  "match_image file =
     (\<exists>stem ext. file = stem @ CHR ''.'' # ext
        \<and> toLowerCase ext \<in> {''jpg'', ''jpeg'', ''png'', ''gif''})"
proof -
  have "match_image file =
     ((\<exists>a. toLowerCase file = a @ CHR ''.'' # ''jpg'') \<or> (\<exists>a. toLowerCase file = a @ CHR ''.'' # ''jpeg'')
      \<or> (\<exists>a. toLowerCase file = a @ CHR ''.'' # ''png'') \<or> (\<exists>a. toLowerCase file = a @ CHR ''.'' # ''gif''))"
    by (simp add: match_image_def endsWith_iff Let_def)
  then show ?thesis
    unfolding lowered_suffix by blast
qed






section \<open>The claims\<close>

text \<open>
  C1. If the bucket listing reports an error, the run is the listing request, the
  \<^verbatim>\<open>Setup failed:\<close> line and exit code 1, with no policy request, no upload and no write of
  the helper file (the same when the listing call throws). When the body of the script
  completes the exit code is 0, and the body completes exactly when the listing and, if
  needed, the creation of the bucket succeed, the row-level-security call returns, the
  images directory and every matched file can be read, every upload call returns, and the
  helper directory and file can be written: the outcomes of the policy calls and the
  errors the uploads report play no part.
\<close>

theorem list_error_aborts_and_completion_exits_zero:
  "(listBuckets env = Returns (buckets, Some e) \<longrightarrow>
      setupStorage bn env =
        ([ListBuckets,
          ConsoleError ''Setup failed:'' (JsError (''Error listing buckets: '' @ message e))], 1))
   \<and> (listBuckets env = Throws e \<longrightarrow>
      setupStorage bn env = ([ListBuckets, ConsoleError ''Setup failed:'' e], 1))
   \<and> (snd (body bn env) = Inr () \<longrightarrow> snd (setupStorage bn env) = 0)
   \<and> (snd (body bn env) = Inr ()) =
       (container_ok bn env \<and> rls_returns env \<and> files_ok bn env \<and> dir_ok env \<and> write_ok bn env)"
proof (intro conjI impI)
  assume "listBuckets env = Returns (buckets, Some e)"
  then have "ensureContainer bn env =
      ([ListBuckets], Inl (JsError (''Error listing buckets: '' @ message e)))"
    by (simp add: ensureContainer_eq)
  then show "setupStorage bn env =
      ([ListBuckets,
        ConsoleError ''Setup failed:'' (JsError (''Error listing buckets: '' @ message e))], 1)"
    by (simp add: abort_in_container)
next
  assume "listBuckets env = Throws e"
  then have "ensureContainer bn env = ([ListBuckets], Inl e)"
    by (simp add: ensureContainer_eq)
  then show "setupStorage bn env = ([ListBuckets, ConsoleError ''Setup failed:'' e], 1)"
    by (simp add: abort_in_container)
next
  assume "snd (body bn env) = Inr ()"
  then show "snd (setupStorage bn env) = 0"
    by (simp add: snd_setupStorage)
next
  show "(snd (body bn env) = Inr ()) =
       (container_ok bn env \<and> rls_returns env \<and> files_ok bn env \<and> dir_ok env \<and> write_ok bn env)"
    by (rule snd_body)
qed

theorem list_error_aborts_and_completion_exits_zero_witness:
  "setupStorage BUCKET_NAME env_list_error =
     ([ListBuckets,
       ConsoleError ''Setup failed:'' (JsError ''Error listing buckets: Invalid API key'')], 1)
   \<and> snd (setupStorage BUCKET_NAME env_partial) = 0"
proof -
  note failed = list_error_aborts_and_completion_exits_zero
      [where env = env_list_error and bn = BUCKET_NAME and buckets = None
         and e = "JsError ''Invalid API key''"]
  note partial = list_error_aborts_and_completion_exits_zero
      [where env = env_partial and bn = BUCKET_NAME]
  have l: "listBuckets env_list_error = Returns (None, Some (JsError ''Invalid API key''))"
    by (simp add: env_list_error_def)
  from failed l have c1: "setupStorage BUCKET_NAME env_list_error =
     ([ListBuckets,
       ConsoleError ''Setup failed:'' (JsError ''Error listing buckets: Invalid API key'')], 1)"
    by simp
  from partial env_partial_ok have c2: "snd (setupStorage BUCKET_NAME env_partial) = 0"
    by blast
  from c1 c2 show ?thesis by blast
qed

text \<open>
  C2. When the listing contains a bucket named as the configured bucket, no create-bucket
  request appears anywhere in the run. When the listing succeeds and does not contain the
  name, the run holds exactly one create-bucket request, for that name; and if that request
  reports an error, or throws, the run stops there with the \<^verbatim>\<open>Setup failed:\<close> line and
  exit code 1.
\<close>

theorem existing_bucket_not_created_absent_created_once:
  "(listBuckets env = Returns (Some bs, r) \<and> bn \<in> bucket_name ` set bs \<longrightarrow>
      filter is_create_bucket (fst (setupStorage bn env)) = [])
   \<and> (listBuckets env = Returns (Some bs, None) \<and> bn \<notin> bucket_name ` set bs \<longrightarrow>
      filter is_create_bucket (fst (setupStorage bn env)) = [CreateBucket bn createOptions])
   \<and> (listBuckets env = Returns (Some bs, None) \<and> bn \<notin> bucket_name ` set bs
        \<and> createBucket env bn createOptions = Returns (Some e) \<longrightarrow>
      setupStorage bn env =
        ([ListBuckets, ConsoleLog (''Creating bucket: '' @ bn), CreateBucket bn createOptions,
          ConsoleError ''Setup failed:'' (JsError (''Error creating bucket: '' @ message e))], 1))
   \<and> (listBuckets env = Returns (Some bs, None) \<and> bn \<notin> bucket_name ` set bs
        \<and> createBucket env bn createOptions = Throws e \<longrightarrow>
      setupStorage bn env =
        ([ListBuckets, ConsoleLog (''Creating bucket: '' @ bn), CreateBucket bn createOptions,
          ConsoleError ''Setup failed:'' e], 1))"
proof (intro conjI impI)
  assume "listBuckets env = Returns (Some bs, r) \<and> bn \<in> bucket_name ` set bs"
  then have "filter is_create_bucket (fst (ensureContainer bn env)) = []"
    by (cases r) (auto simp: ensureContainer_eq bucketExists_iff)
  then show "filter is_create_bucket (fst (setupStorage bn env)) = []"
    by (simp add: create_requests)
next
  assume "listBuckets env = Returns (Some bs, None) \<and> bn \<notin> bucket_name ` set bs"
  then have "filter is_create_bucket (fst (ensureContainer bn env)) = [CreateBucket bn createOptions]"
    by (auto simp: ensureContainer_eq bucketExists_iff split: outcome.splits option.splits)
  then show "filter is_create_bucket (fst (setupStorage bn env)) = [CreateBucket bn createOptions]"
    by (simp add: create_requests)
next
  assume "listBuckets env = Returns (Some bs, None) \<and> bn \<notin> bucket_name ` set bs
        \<and> createBucket env bn createOptions = Returns (Some e)"
  then have "ensureContainer bn env =
      ([ListBuckets, ConsoleLog (''Creating bucket: '' @ bn), CreateBucket bn createOptions],
       Inl (JsError (''Error creating bucket: '' @ message e)))"
    by (auto simp: ensureContainer_eq bucketExists_iff)
  then show "setupStorage bn env =
        ([ListBuckets, ConsoleLog (''Creating bucket: '' @ bn), CreateBucket bn createOptions,
          ConsoleError ''Setup failed:'' (JsError (''Error creating bucket: '' @ message e))], 1)"
    by (simp add: abort_in_container)
next
  assume "listBuckets env = Returns (Some bs, None) \<and> bn \<notin> bucket_name ` set bs
        \<and> createBucket env bn createOptions = Throws e"
  then have "ensureContainer bn env =
      ([ListBuckets, ConsoleLog (''Creating bucket: '' @ bn), CreateBucket bn createOptions],
       Inl e)"
    by (auto simp: ensureContainer_eq bucketExists_iff)
  then show "setupStorage bn env =
        ([ListBuckets, ConsoleLog (''Creating bucket: '' @ bn), CreateBucket bn createOptions,
          ConsoleError ''Setup failed:'' e], 1)"
    by (simp add: abort_in_container)
qed

theorem existing_bucket_not_created_absent_created_once_witness:
  "filter is_create_bucket (fst (setupStorage BUCKET_NAME env_ok)) = []
   \<and> filter is_create_bucket (fst (setupStorage BUCKET_NAME env_fresh))
       = [CreateBucket ''disc-product-images'' \<lparr> public = True, fileSizeLimit = 2097152 \<rparr>]
   \<and> setupStorage BUCKET_NAME env_create_error =
        ([ListBuckets, ConsoleLog ''Creating bucket: disc-product-images'',
          CreateBucket ''disc-product-images'' \<lparr> public = True, fileSizeLimit = 2097152 \<rparr>,
          ConsoleError ''Setup failed:'' (JsError ''Error creating bucket: Bucket limit reached'')],
         1)"
  using existing_bucket_not_created_absent_created_once
          [where env = env_ok and bn = BUCKET_NAME
             and bs = "[Bucket ''avatars'', Bucket ''disc-product-images'']" and r = None]
        existing_bucket_not_created_absent_created_once
          [where env = env_fresh and bn = BUCKET_NAME and bs = "[Bucket ''avatars'']"]
        existing_bucket_not_created_absent_created_once
          [where env = env_create_error and bn = BUCKET_NAME and bs = "[Bucket ''avatars'']"
             and e = "JsError ''Bucket limit reached''"]
  by (simp add: env_ok_def env_fresh_def env_create_error_def BUCKET_NAME_def createOptions_def)

text \<open>
  C10. Every create-bucket request of a run is for the configured name, with the public
  flag set and a size limit of 2097152 bytes (\<open>1024 * 1024 * 2\<close>).
\<close>

theorem bucket_created_public_with_two_mebibyte_limit:
  "CreateBucket b opts \<in> set (fst (setupStorage bn env)) \<Longrightarrow>
     b = bn \<and> public opts = True \<and> fileSizeLimit opts = 2097152"
proof -
  assume a: "CreateBucket b opts \<in> set (fst (setupStorage bn env))"
  from setupStorage_events [OF a] have "CreateBucket b opts = CreateBucket bn createOptions"
    by (auto dest!: ensureContainer_events ensureAccessRules_events uploadAssets_events
        writeHelper_events uploadFile_events)
  then show ?thesis by (simp add: createOptions_def)
qed

theorem bucket_created_public_with_two_mebibyte_limit_witness:
  "CreateBucket ''disc-product-images'' \<lparr> public = True, fileSizeLimit = 2097152 \<rparr>
     \<in> set (filter is_create_bucket (fst (setupStorage BUCKET_NAME env_fresh)))
   \<and> public \<lparr> public = True, fileSizeLimit = 2097152 \<rparr> = True
   \<and> fileSizeLimit \<lparr> public = True, fileSizeLimit = 2097152 \<rparr> = 2 * 1024 * 1024"
proof -
  have "filter is_create_bucket (fst (setupStorage BUCKET_NAME env_fresh))
       = [CreateBucket ''disc-product-images'' \<lparr> public = True, fileSizeLimit = 2097152 \<rparr>]"
    by (simp add: create_requests ensureContainer_eq env_fresh_def env_ok_def BUCKET_NAME_def
        bucketExists_def createOptions_def)
  then have m: "CreateBucket ''disc-product-images'' \<lparr> public = True, fileSizeLimit = 2097152 \<rparr>
     \<in> set (filter is_create_bucket (fst (setupStorage BUCKET_NAME env_fresh)))"
    by simp
  then have "CreateBucket ''disc-product-images'' \<lparr> public = True, fileSizeLimit = 2097152 \<rparr>
     \<in> set (fst (setupStorage BUCKET_NAME env_fresh))"
    by simp
  from bucket_created_public_with_two_mebibyte_limit [OF this] m show ?thesis
    by simp
qed






text \<open>
  C8. When the policy-creation call returns (whatever error its result object carries), the
  turn is the \<^verbatim>\<open>Creating policy\<close> line and the request: nothing more is logged, and the
  message is never tested. A line of the \<^verbatim>\<open>catch\<close> handler appears in a turn only if the
  call threw. For the whole script: when the four calls return, the run is the run in a
  world where each of them returns no error.
\<close>

theorem returned_policy_error_ignored:
  "(rpc env ''create_storage_policy'' (policy_args bn p) = Returns r \<longrightarrow>
      createPolicy bn env p =
        ([ConsoleLog (''Creating policy: '' @ name p),
          Rpc ''create_storage_policy'' (policy_args bn p)], Inr ()))
   \<and> (ConsoleError (''Error creating policy '' @ name p @ '':'') e
          \<in> set (fst (createPolicy bn env p))
        \<or> ConsoleLog (''Policy '' @ name p @ '' already exists'')
          \<in> set (fst (createPolicy bn env p)) \<longrightarrow>
      (\<exists>e'. rpc env ''create_storage_policy'' (policy_args bn p) = Throws e'))
   \<and> (list_all (\<lambda>p. \<exists>r. rpc env ''create_storage_policy'' (policy_args bn p) = Returns r)
         (policies bn) \<longrightarrow>
      setupStorage bn env =
        setupStorage bn
          (env\<lparr>rpc := \<lambda>f args. if f = ''create_storage_policy'' then Returns None
                                else rpc env f args\<rparr>))"
proof (intro conjI impI)
  assume "rpc env ''create_storage_policy'' (policy_args bn p) = Returns r"
  then show "createPolicy bn env p =
        ([ConsoleLog (''Creating policy: '' @ name p),
          Rpc ''create_storage_policy'' (policy_args bn p)], Inr ())"
    by (rule createPolicy_returns)
next
  assume "ConsoleError (''Error creating policy '' @ name p @ '':'') e
          \<in> set (fst (createPolicy bn env p))
        \<or> ConsoleLog (''Policy '' @ name p @ '' already exists'')
          \<in> set (fst (createPolicy bn env p))"
  then show "\<exists>e'. rpc env ''create_storage_policy'' (policy_args bn p) = Throws e'"
    by (cases "rpc env ''create_storage_policy'' (policy_args bn p)")
      (auto simp: createPolicy_eq)
next
  let ?g = "\<lambda>f args. if f = ''create_storage_policy'' then Returns None else rpc env f args"
  assume a: "list_all (\<lambda>p. \<exists>r. rpc env ''create_storage_policy'' (policy_args bn p) = Returns r)
         (policies bn)"
  have "map (\<lambda>p. fst (createPolicy bn (env\<lparr>rpc := ?g\<rparr>) p)) (policies bn)
      = map (\<lambda>p. fst (createPolicy bn env p)) (policies bn)"
  proof (rule map_cong [OF refl])
    fix p assume "p \<in> set (policies bn)"
    with a obtain r where "rpc env ''create_storage_policy'' (policy_args bn p) = Returns r"
      by (auto simp: list_all_iff)
    then show "fst (createPolicy bn (env\<lparr>rpc := ?g\<rparr>) p) = fst (createPolicy bn env p)"
      by (simp add: createPolicy_eq)
  qed
  then have "concat (map (\<lambda>p. fst (createPolicy bn (env\<lparr>rpc := ?g\<rparr>) p)) (policies bn))
      = concat (map (\<lambda>p. fst (createPolicy bn env p)) (policies bn))"
    by (rule arg_cong)
  then have "ensureAccessRules bn (env\<lparr>rpc := ?g\<rparr>) = ensureAccessRules bn env"
    by (simp add: ensureAccessRules_eq split: outcome.splits)
  then show "setupStorage bn env = setupStorage bn (env\<lparr>rpc := ?g\<rparr>)"
    by (simp add: setupStorage_rpc_update)
qed

theorem returned_policy_error_ignored_witness:
  "createPolicy BUCKET_NAME env_policy_denied (hd (policies BUCKET_NAME)) =
        ([ConsoleLog ''Creating policy: Allow public uploads'',
          Rpc ''create_storage_policy'' (policy_args BUCKET_NAME (hd (policies BUCKET_NAME)))],
         Inr ())
   \<and> rpc env_policy_exists ''create_storage_policy''
         (policy_args BUCKET_NAME (hd (policies BUCKET_NAME)))
       = Throws (JsError ''policy already exists'')
   \<and> setupStorage BUCKET_NAME env_policy_denied = setupStorage BUCKET_NAME env_ok"
proof -
  let ?p = "hd (policies BUCKET_NAME)"
  note denied = returned_policy_error_ignored
            [where env = env_policy_denied and bn = BUCKET_NAME and p = ?p
               and r = "Some (JsError ''permission denied for schema storage'')"]
  note exists = returned_policy_error_ignored
            [where env = env_policy_exists and bn = BUCKET_NAME and p = ?p]
  have n: "name ?p = ''Allow public uploads''"
    by (simp add: policies_def)
  have g: "env_policy_denied
      \<lparr>rpc := \<lambda>f args. if f = ''create_storage_policy'' then Returns None
                        else rpc env_policy_denied f args\<rparr> = env_ok"
    by (simp add: env_policy_denied_def env_ok_def fun_eq_iff)
  have l: "list_all (\<lambda>p. \<exists>r. rpc env_policy_denied ''create_storage_policy''
               (policy_args BUCKET_NAME p) = Returns r) (policies BUCKET_NAME)"
    by (simp add: list_all_iff env_policy_denied_def env_ok_def)
  have h: "rpc env_policy_denied ''create_storage_policy'' (policy_args BUCKET_NAME ?p)
      = Returns (Some (JsError ''permission denied for schema storage''))"
    by (simp add: env_policy_denied_def env_ok_def)
  have c1: "createPolicy BUCKET_NAME env_policy_denied ?p =
        ([ConsoleLog ''Creating policy: Allow public uploads'',
          Rpc ''create_storage_policy'' (policy_args BUCKET_NAME ?p)], Inr ())"
    using denied h n by simp
  have m: "ConsoleLog (''Policy '' @ name ?p @ '' already exists'')
      \<in> set (fst (createPolicy BUCKET_NAME env_policy_exists ?p))"
    by (simp add: createPolicy_eq env_policy_exists_def env_ok_def)
  have "\<exists>e'. rpc env_policy_exists ''create_storage_policy'' (policy_args BUCKET_NAME ?p)
      = Throws e'"
    using exists m by blast
  then have c2: "rpc env_policy_exists ''create_storage_policy'' (policy_args BUCKET_NAME ?p)
      = Throws (JsError ''policy already exists'')"
    by (simp add: env_policy_exists_def env_ok_def)
  have c3: "setupStorage BUCKET_NAME env_policy_denied = setupStorage BUCKET_NAME env_ok"
    using denied l g by simp
  from c1 c2 c3 show ?thesis by blast
qed

text \<open>
  C4, as amended. When the run reaches the upload step, the images directory lists
  \<open>files\<close>, every matched file can be read and every upload call returns a result (with or
  without an error in it), the uploads attempted are exactly the entries whose names end in
  \<^verbatim>\<open>.jpg\<close>, \<^verbatim>\<open>.jpeg\<close>, \<^verbatim>\<open>.png\<close> or \<^verbatim>\<open>.gif\<close> (in any letter case), in the order of the
  listing, whatever errors the uploads report; a name is matched exactly when it is a stem,
  a dot and one of the four words in any letter case. For the directory \<^verbatim>\<open>a.png\<close>, \<^verbatim>\<open>b.txt\<close>,
  \<^verbatim>\<open>c.JPG\<close> in which the upload of \<^verbatim>\<open>a.png\<close> reports an error, the attempts are \<^verbatim>\<open>a.png\<close>
  and \<^verbatim>\<open>c.JPG\<close>.
\<close>

theorem matched_entries_uploaded_when_reads_and_uploads_return:
  "(container_ok bn env \<and> rls_returns env
      \<and> readdirSync env (IMAGES_DIR env) = Returns files
      \<and> list_all (file_ok bn env) files \<longrightarrow>
    upload_paths (fst (setupStorage bn env)) =
      map (\<lambda>f. ''product-images/'' @ f) (filter match_image files))
   \<and> match_image entry =
       (\<exists>stem ext. entry = stem @ CHR ''.'' # ext
          \<and> toLowerCase ext \<in> {''jpg'', ''jpeg'', ''png'', ''gif''})"
proof (intro conjI impI)
  assume "container_ok bn env \<and> rls_returns env
      \<and> readdirSync env (IMAGES_DIR env) = Returns files
      \<and> list_all (file_ok bn env) files"
  then show "upload_paths (fst (setupStorage bn env)) =
      map (\<lambda>f. ''product-images/'' @ f) (filter match_image files)"
    by (simp add: upload_paths_setupStorage upload_paths_uploadAssets upload_paths_uploadFiles)
next
  show "match_image entry =
       (\<exists>stem ext. entry = stem @ CHR ''.'' # ext
          \<and> toLowerCase ext \<in> {''jpg'', ''jpeg'', ''png'', ''gif''})"
    by (rule match_image_iff)
qed

theorem matched_entries_uploaded_when_reads_and_uploads_return_witness:
  "upload env_partial BUCKET_NAME ''product-images/a.png'' ''image bytes''
       (uploadOptions env_partial ''a.png'') = Returns (Some (JsError ''Payload too large''))
   \<and> upload_paths (fst (setupStorage BUCKET_NAME env_partial)) =
       [''product-images/a.png'', ''product-images/c.JPG'']"
proof -
  note partial = matched_entries_uploaded_when_reads_and_uploads_return
      [where env = env_partial and bn = BUCKET_NAME and files = "[''a.png'', ''b.txt'', ''c.JPG'']"]
  have l: "readdirSync env_partial (IMAGES_DIR env_partial) =
      Returns [''a.png'', ''b.txt'', ''c.JPG'']"
    by (simp add: env_partial_def env_ok_def)
  have f: "list_all (file_ok BUCKET_NAME env_partial) [''a.png'', ''b.txt'', ''c.JPG'']"
    using env_partial_ok l by (simp add: files_ok_def)
  have u: "upload env_partial BUCKET_NAME ''product-images/a.png'' ''image bytes''
       (uploadOptions env_partial ''a.png'') = Returns (Some (JsError ''Payload too large''))"
    by (simp add: env_partial_def env_ok_def)
  have "upload_paths (fst (setupStorage BUCKET_NAME env_partial)) =
       map (\<lambda>f. ''product-images/'' @ f) (filter match_image [''a.png'', ''b.txt'', ''c.JPG''])"
    using partial env_partial_ok l f by blast
  with u match_image_samples show ?thesis by simp
qed

text \<open>
  C4 without the condition on reads, for every listing and with each entry independent of
  the others, fails when a matched file cannot be read: in the directory \<^verbatim>\<open>a.png\<close>, \<^verbatim>\<open>b.txt\<close>,
  \<^verbatim>\<open>c.JPG\<close> with \<^verbatim>\<open>a.png\<close> unreadable, two entries match and no upload is attempted, the
  run ending with exit code 1.
\<close>

theorem unreadable_file_stops_later_uploads:
  "readdirSync env_unreadable (IMAGES_DIR env_unreadable) = Returns [''a.png'', ''b.txt'', ''c.JPG'']
   \<and> filter match_image [''a.png'', ''b.txt'', ''c.JPG''] = [''a.png'', ''c.JPG'']
   \<and> readFileSync env_unreadable (path_join env_unreadable (IMAGES_DIR env_unreadable) ''a.png'')
       = Throws (JsError ''EACCES: permission denied'')
   \<and> upload_paths (fst (setupStorage BUCKET_NAME env_unreadable)) = []
   \<and> snd (setupStorage BUCKET_NAME env_unreadable) = 1"
proof -
  have l: "readdirSync env_unreadable (IMAGES_DIR env_unreadable) =
      Returns ([] @ ''a.png'' # [''b.txt'', ''c.JPG''])"
    by (simp add: env_unreadable_def env_ok_def)
  have r: "readFileSync env_unreadable (path_join env_unreadable (IMAGES_DIR env_unreadable) ''a.png'')
       = Throws (JsError ''EACCES: permission denied'')"
    by (simp add: env_unreadable_def env_ok_def IMAGES_DIR_def sample_join_def)
  have m: "match_image ''a.png''" using match_image_samples by simp
  have "prefix (upload_paths (fst (uploadFiles BUCKET_NAME env_unreadable
            ([] @ ''a.png'' # [''b.txt'', ''c.JPG'']))))
          (map (\<lambda>f. ''product-images/'' @ f) (filter match_image []))"
    using m r by (rule uploadFiles_stops)
  then have "upload_paths (fst (uploadAssets BUCKET_NAME env_unreadable)) = []"
    using l by (simp add: upload_paths_uploadAssets)
  then have u: "upload_paths (fst (setupStorage BUCKET_NAME env_unreadable)) = []"
    by (simp add: upload_paths_setupStorage)
  have "\<not> file_ok BUCKET_NAME env_unreadable ''a.png''"
    using m r by (simp add: file_ok_def)
  then have "\<not> files_ok BUCKET_NAME env_unreadable"
    using l by (simp add: files_ok_def)
  then have e: "snd (setupStorage BUCKET_NAME env_unreadable) = 1"
    by (simp add: exit_code)
  from l r u e match_image_samples show ?thesis by simp
qed

text \<open>
  C5. When the run reaches the writing of the helper (the bucket, policy and upload steps
  complete and the target directory exists or is created), the run holds exactly one
  write: the helper path, the text \<open>helperCode bn\<close>, in UTF-8. No test of the file's
  existence or content precedes it. The directory is created in that run exactly when it
  did not exist. The text contains the bucket name, and two bucket names give the same
  text only when they are equal: the text depends on nothing else (\<open>helperCode\<close> has no
  other argument).
\<close>

theorem helper_written_with_bucket_name:
  "(container_ok bn env \<and> rls_returns env \<and> files_ok bn env \<and> dir_ok env \<longrightarrow>
      filter is_write (fst (setupStorage bn env)) =
        [WriteFileSync (helperPath env) (helperCode bn) ''utf-8'']
      \<and> (MkdirSync (utilsDir env) \<in> set (fst (setupStorage bn env)))
          = (\<not> existsSync env (utilsDir env)))
   \<and> str_includes (helperCode bn) bn
   \<and> (helperCode bn = helperCode bn') = (bn = bn')"
proof (intro conjI impI)
  assume a: "container_ok bn env \<and> rls_returns env \<and> files_ok bn env \<and> dir_ok env"
  then show "filter is_write (fst (setupStorage bn env)) =
        [WriteFileSync (helperPath env) (helperCode bn) ''utf-8'']"
    by (auto simp: writes_setupStorage writeHelper_eq dir_ok_def split: outcome.splits)
  have "MkdirSync (utilsDir env) \<notin> set (fst (ensureContainer bn env))"
    "MkdirSync (utilsDir env) \<notin> set (fst (ensureAccessRules bn env))"
    "MkdirSync (utilsDir env) \<notin> set (fst (uploadAssets bn env))"
    by (auto dest!: ensureContainer_events ensureAccessRules_events uploadAssets_events
        uploadFile_events)
  moreover have "(MkdirSync (utilsDir env) \<in> set (fst (writeHelper bn env)))
      = (\<not> existsSync env (utilsDir env))"
    by (auto simp: writeHelper_eq split: outcome.splits)
  ultimately show "(MkdirSync (utilsDir env) \<in> set (fst (setupStorage bn env)))
          = (\<not> existsSync env (utilsDir env))"
    using a by (auto simp: trace_setupStorage split: sum.splits)
next
  show "str_includes (helperCode bn) bn" by (rule helperCode_includes)
next
  show "(helperCode bn = helperCode bn') = (bn = bn')" by (rule helperCode_inj)
qed

theorem helper_written_with_bucket_name_witness:
  "filter is_write (fst (setupStorage BUCKET_NAME env_fresh)) =
        [WriteFileSync ''/app/src/utils/storageHelper.ts'' (helperCode ''disc-product-images'')
           ''utf-8'']
   \<and> MkdirSync ''/app/src/utils'' \<in> set (fst (setupStorage BUCKET_NAME env_fresh))
   \<and> MkdirSync ''/app/src/utils'' \<notin> set (fst (setupStorage BUCKET_NAME env_ok))
   \<and> str_includes (helperCode BUCKET_NAME) ''disc-product-images''
   \<and> helperCode ''disc-product-images'' \<noteq> helperCode ''product-images''"
proof -
  note fresh = helper_written_with_bucket_name
      [where env = env_fresh and bn = BUCKET_NAME and bn' = "''product-images''"]
  note ok = helper_written_with_bucket_name [where env = env_ok and bn = BUCKET_NAME]
  have r: "container_ok BUCKET_NAME env_fresh \<and> rls_returns env_fresh
      \<and> files_ok BUCKET_NAME env_fresh \<and> dir_ok env_fresh"
    by (simp add: container_ok_def rls_returns_def files_ok_def file_ok_def dir_ok_def
        env_fresh_def env_ok_def BUCKET_NAME_def bucketExists_def match_image_samples)
  have r': "container_ok BUCKET_NAME env_ok \<and> rls_returns env_ok
      \<and> files_ok BUCKET_NAME env_ok \<and> dir_ok env_ok"
    by (simp add: container_ok_def rls_returns_def files_ok_def file_ok_def dir_ok_def
        env_ok_def BUCKET_NAME_def bucketExists_def match_image_samples)
  have p: "helperPath env_fresh = ''/app/src/utils/storageHelper.ts''"
    "utilsDir env_fresh = ''/app/src/utils''" "utilsDir env_ok = ''/app/src/utils''"
    "\<not> existsSync env_fresh ''/app/src/utils''" "existsSync env_ok ''/app/src/utils''"
    by (simp_all add: helperPath_def utilsDir_def env_fresh_def env_ok_def sample_join_def)
  from fresh r p have c1: "filter is_write (fst (setupStorage BUCKET_NAME env_fresh)) =
        [WriteFileSync ''/app/src/utils/storageHelper.ts'' (helperCode BUCKET_NAME) ''utf-8'']
      \<and> MkdirSync ''/app/src/utils'' \<in> set (fst (setupStorage BUCKET_NAME env_fresh))"
    by simp
  from ok r' p have c2: "MkdirSync ''/app/src/utils'' \<notin> set (fst (setupStorage BUCKET_NAME env_ok))"
    by simp
  from fresh have c3: "str_includes (helperCode BUCKET_NAME) BUCKET_NAME
      \<and> helperCode BUCKET_NAME \<noteq> helperCode ''product-images''"
    by (simp add: BUCKET_NAME_def)
  from c1 c2 c3 show ?thesis by (simp add: BUCKET_NAME_def)
qed

text \<open>
  C6. Every upload request of a run is for a matched entry of the listing: it goes to the
  configured bucket, under the path \<^verbatim>\<open>product-images/\<close> followed by the entry's name, with
  the content read from the entry, with \<^verbatim>\<open>upsert\<close> set, and with the content type
  \<^verbatim>\<open>image/\<close> followed by the entry's extension (\<^verbatim>\<open>path.extname\<close>) without its first
  character, the dot.
\<close>

theorem upload_request_shape:
  "Upload b p buf opts \<in> set (fst (setupStorage bn env)) \<Longrightarrow>
     \<exists>files file. readdirSync env (IMAGES_DIR env) = Returns files \<and> file \<in> set files
       \<and> match_image file
       \<and> readFileSync env (path_join env (IMAGES_DIR env) file) = Returns buf
       \<and> b = bn \<and> p = ''product-images/'' @ file
       \<and> upsert opts = True
       \<and> contentType opts = ''image/'' @ drop 1 (path_extname env file)"
proof -
  assume a: "Upload b p buf opts \<in> set (fst (setupStorage bn env))"
  from setupStorage_events [OF a]
  have "Upload b p buf opts \<in> set (fst (uploadAssets bn env))"
    by (auto dest!: ensureContainer_events ensureAccessRules_events writeHelper_events)
  then obtain files entry where f: "readdirSync env (IMAGES_DIR env) = Returns files"
      "entry \<in> set files" "Upload b p buf opts \<in> set (fst (uploadFile bn env entry))"
    by (auto dest!: uploadAssets_events)
  from f(3) have "match_image entry
       \<and> readFileSync env (path_join env (IMAGES_DIR env) entry) = Returns buf
       \<and> b = bn \<and> p = ''product-images/'' @ entry \<and> opts = uploadOptions env entry"
    by (auto dest!: uploadFile_events)
  with f(1,2) show ?thesis
    by (auto simp: uploadOptions_def)
qed

theorem upload_request_shape_witness:
  "Upload ''disc-product-images'' ''product-images/c.JPG'' ''image bytes''
       \<lparr> contentType = ''image/JPG'', upsert = True \<rparr>
     \<in> set (fst (setupStorage BUCKET_NAME env_ok))
   \<and> path_extname env_ok ''c.JPG'' = ''.JPG''
   \<and> (\<exists>files file. readdirSync env_ok (IMAGES_DIR env_ok) = Returns files \<and> file \<in> set files
       \<and> match_image file
       \<and> readFileSync env_ok (path_join env_ok (IMAGES_DIR env_ok) file) = Returns ''image bytes''
       \<and> ''disc-product-images'' = BUCKET_NAME \<and> ''product-images/c.JPG'' = ''product-images/'' @ file
       \<and> upsert \<lparr> contentType = ''image/JPG'', upsert = True \<rparr> = True
       \<and> contentType \<lparr> contentType = ''image/JPG'', upsert = True \<rparr>
           = ''image/'' @ drop 1 (path_extname env_ok file))"
proof -
  have x: "path_extname env_ok ''c.JPG'' = ''.JPG''"
    by (simp add: env_ok_def sample_extname_def)
  have "Upload BUCKET_NAME (''product-images/'' @ ''c.JPG'') ''image bytes''
        (uploadOptions env_ok ''c.JPG'') \<in> set (fst (uploadFile BUCKET_NAME env_ok ''c.JPG''))"
    using match_image_samples by (simp add: uploadFile_eq env_ok_def)
  then have "Upload BUCKET_NAME (''product-images/'' @ ''c.JPG'') ''image bytes''
        (uploadOptions env_ok ''c.JPG'')
      \<in> set (fst (uploadFiles BUCKET_NAME env_ok [''a.png'', ''b.txt'', ''c.JPG'']))"
    using match_image_samples
    by (simp add: fst_bind_run uploadFile_eq env_ok_def done_run_def)
  then have "Upload BUCKET_NAME (''product-images/'' @ ''c.JPG'') ''image bytes''
        (uploadOptions env_ok ''c.JPG'') \<in> set (fst (uploadAssets BUCKET_NAME env_ok))"
    by (simp add: uploadAssets_def fst_bind_run perform_def console_log_def env_ok_def)
  then have "Upload BUCKET_NAME (''product-images/'' @ ''c.JPG'') ''image bytes''
        (uploadOptions env_ok ''c.JPG'') \<in> set (fst (setupStorage BUCKET_NAME env_ok))"
    using env_ok_reaches by (simp add: trace_setupStorage)
  then have m: "Upload ''disc-product-images'' ''product-images/c.JPG'' ''image bytes''
       \<lparr> contentType = ''image/JPG'', upsert = True \<rparr>
     \<in> set (fst (setupStorage BUCKET_NAME env_ok))"
    using x by (simp add: uploadOptions_def BUCKET_NAME_def)
  from upload_request_shape [OF m] m x show ?thesis by blast
qed

text \<open>
  C9. When reading the images directory throws, the run ends with exit code 1 and holds no
  upload and no write of the helper file. When reading a matched entry of the listing
  throws, the run ends with exit code 1, holds no write of the helper file, and its uploads
  are some of the matched entries listed before that entry, in order: neither that entry
  nor a later one is uploaded. If moreover the run gets to that entry (the earlier steps
  complete and the entries before it are read and uploaded), the uploads are exactly the
  matched entries before it and the last line of the run is \<^verbatim>\<open>Setup failed:\<close> with the
  error of the read.
\<close>

theorem local_read_failure_aborts_run:
  "(readdirSync env (IMAGES_DIR env) = Throws e \<longrightarrow>
      snd (setupStorage bn env) = 1
      \<and> filter is_upload (fst (setupStorage bn env)) = []
      \<and> filter is_write (fst (setupStorage bn env)) = [])
   \<and> (readdirSync env (IMAGES_DIR env) = Returns (pre @ entry # post) \<and> match_image entry
        \<and> readFileSync env (path_join env (IMAGES_DIR env) entry) = Throws e \<longrightarrow>
      snd (setupStorage bn env) = 1
      \<and> prefix (upload_paths (fst (setupStorage bn env)))
           (map (\<lambda>f. ''product-images/'' @ f) (filter match_image pre))
      \<and> filter is_write (fst (setupStorage bn env)) = [])
   \<and> (container_ok bn env \<and> rls_returns env
        \<and> readdirSync env (IMAGES_DIR env) = Returns (pre @ entry # post)
        \<and> list_all (file_ok bn env) pre \<and> match_image entry
        \<and> readFileSync env (path_join env (IMAGES_DIR env) entry) = Throws e \<longrightarrow>
      upload_paths (fst (setupStorage bn env)) =
        map (\<lambda>f. ''product-images/'' @ f) (filter match_image pre)
      \<and> last (fst (setupStorage bn env)) = ConsoleError ''Setup failed:'' e)"
proof (intro conjI impI)
  assume a: "readdirSync env (IMAGES_DIR env) = Throws e"
  then have n: "\<not> files_ok bn env" by (simp add: files_ok_def)
  then show "snd (setupStorage bn env) = 1" by (simp add: exit_code)
  from n show "filter is_write (fst (setupStorage bn env)) = []"
    by (simp add: writes_setupStorage)
  from a show "filter is_upload (fst (setupStorage bn env)) = []"
    by (simp add: uploads_setupStorage uploadAssets_def fst_bind_run perform_def)
next
  assume a: "readdirSync env (IMAGES_DIR env) = Returns (pre @ entry # post) \<and> match_image entry
        \<and> readFileSync env (path_join env (IMAGES_DIR env) entry) = Throws e"
  then have "\<not> file_ok bn env entry" by (simp add: file_ok_def)
  with a have n: "\<not> files_ok bn env" by (simp add: files_ok_def)
  then show "snd (setupStorage bn env) = 1" by (simp add: exit_code)
  from n show "filter is_write (fst (setupStorage bn env)) = []"
    by (simp add: writes_setupStorage)
  from a have m: "match_image entry"
    and r: "readFileSync env (path_join env (IMAGES_DIR env) entry) = Throws e"
    by simp_all
  have "prefix (upload_paths (fst (uploadFiles bn env (pre @ entry # post))))
       (map (\<lambda>f. ''product-images/'' @ f) (filter match_image pre))"
    using m r by (rule uploadFiles_stops)
  with a show "prefix (upload_paths (fst (setupStorage bn env)))
           (map (\<lambda>f. ''product-images/'' @ f) (filter match_image pre))"
    by (simp add: upload_paths_setupStorage upload_paths_uploadAssets)
next
  assume a: "container_ok bn env \<and> rls_returns env
        \<and> readdirSync env (IMAGES_DIR env) = Returns (pre @ entry # post)
        \<and> list_all (file_ok bn env) pre \<and> match_image entry
        \<and> readFileSync env (path_join env (IMAGES_DIR env) entry) = Throws e"
  then have r: "snd (uploadFiles bn env (pre @ entry # post)) = Inl e
     \<and> upload_paths (fst (uploadFiles bn env (pre @ entry # post))) =
         map (\<lambda>f. ''product-images/'' @ f) (filter match_image pre)"
    by (simp add: uploadFiles_reaches)
  with a show "upload_paths (fst (setupStorage bn env)) =
        map (\<lambda>f. ''product-images/'' @ f) (filter match_image pre)"
    by (simp add: upload_paths_setupStorage upload_paths_uploadAssets)
  from a r have "snd (uploadAssets bn env) = Inl e"
    by (simp add: uploadAssets_def snd_bind_run perform_def console_log_def)
  moreover from a have "snd (ensureContainer bn env) = Inr ()" "snd (ensureAccessRules bn env) = Inr ()"
    by (simp_all add: snd_ensureContainer snd_ensureAccessRules)
  ultimately have "snd (body bn env) = Inl e"
    by (simp add: body_def snd_bind_run)
  then show "last (fst (setupStorage bn env)) = ConsoleError ''Setup failed:'' e"
    by (simp add: fst_setupStorage)
qed

theorem local_read_failure_aborts_run_witness:
  "snd (setupStorage BUCKET_NAME env_no_images) = 1
   \<and> filter is_upload (fst (setupStorage BUCKET_NAME env_no_images)) = []
   \<and> filter is_write (fst (setupStorage BUCKET_NAME env_no_images)) = []
   \<and> snd (setupStorage BUCKET_NAME env_unreadable) = 1
   \<and> upload_paths (fst (setupStorage BUCKET_NAME env_unreadable)) = []
   \<and> filter is_write (fst (setupStorage BUCKET_NAME env_unreadable)) = []
   \<and> last (fst (setupStorage BUCKET_NAME env_unreadable))
       = ConsoleError ''Setup failed:'' (JsError ''EACCES: permission denied'')"
proof -
  note no_dir = local_read_failure_aborts_run
      [where env = env_no_images and bn = BUCKET_NAME
         and e = "JsError ''ENOENT: no such file or directory''"]
  note no_file = local_read_failure_aborts_run
      [where env = env_unreadable and bn = BUCKET_NAME and pre = "[]" and entry = "''a.png''"
         and post = "[''b.txt'', ''c.JPG'']" and e = "JsError ''EACCES: permission denied''"]
  have d: "readdirSync env_no_images (IMAGES_DIR env_no_images)
      = Throws (JsError ''ENOENT: no such file or directory'')"
    by (simp add: env_no_images_def env_ok_def)
  have l: "readdirSync env_unreadable (IMAGES_DIR env_unreadable) =
      Returns ([] @ ''a.png'' # [''b.txt'', ''c.JPG''])"
    by (simp add: env_unreadable_def env_ok_def)
  have r: "readFileSync env_unreadable (path_join env_unreadable (IMAGES_DIR env_unreadable) ''a.png'')
       = Throws (JsError ''EACCES: permission denied'')"
    by (simp add: env_unreadable_def env_ok_def IMAGES_DIR_def sample_join_def)
  have m: "match_image ''a.png''" using match_image_samples by simp
  have c: "container_ok BUCKET_NAME env_unreadable \<and> rls_returns env_unreadable"
    by (simp add: container_ok_def rls_returns_def env_unreadable_def env_ok_def BUCKET_NAME_def
        bucketExists_def)
  from no_dir d have c1: "snd (setupStorage BUCKET_NAME env_no_images) = 1
      \<and> filter is_upload (fst (setupStorage BUCKET_NAME env_no_images)) = []
      \<and> filter is_write (fst (setupStorage BUCKET_NAME env_no_images)) = []"
    by blast
  from no_file l r m have c2: "snd (setupStorage BUCKET_NAME env_unreadable) = 1
      \<and> prefix (upload_paths (fst (setupStorage BUCKET_NAME env_unreadable)))
           (map (\<lambda>f. ''product-images/'' @ f) (filter match_image []))
      \<and> filter is_write (fst (setupStorage BUCKET_NAME env_unreadable)) = []"
    by blast
  from no_file l r m c have c3: "last (fst (setupStorage BUCKET_NAME env_unreadable))
       = ConsoleError ''Setup failed:'' (JsError ''EACCES: permission denied'')"
    by simp
  from c1 c2 c3 show ?thesis by simp
qed

end
